theory Spec2Isabelle
  imports Complex_Main "HOL-Library.Word" "HOL-Library.AList"
begin

section \<open>The glass material of appleseed-max: data model\<close>

text \<open>
  The development follows \<^verbatim>\<open>appleseedglassmtl.cpp\<close>. The material object
  \<^verbatim>\<open>AppleseedGlassMtl\<close> is a record of its member variables, every member function
  takes the object and returns the updated one. The single-precision numbers of the
  source are real numbers here: rounding is not part of the model, the shape of every
  expression (which value is divided, by what) is.
\<close>

subsection \<open>Host types\<close>

text \<open>A \<^verbatim>\<open>Texmap*\<close> is the handle of a texture object of the host; the null pointer
  is \<open>None\<close>.\<close>

type_synonym Texmap = nat

type_synonym TimeValue = int

text \<open>The host colour class \<^verbatim>\<open>Color\<close> with its members \<^verbatim>\<open>r\<close>, \<^verbatim>\<open>g\<close>,
  \<^verbatim>\<open>b\<close>, and the renderer's \<^verbatim>\<open>Color3f\<close>.\<close>

datatype Color = Color (color_r: real) (color_g: real) (color_b: real)

datatype Color3f = Color3f real real real

fun to_color3f :: "Color \<Rightarrow> Color3f" where
  "to_color3f (Color x y z) = Color3f x y z"

text \<open>
  Modelled from the spec: the host class \<^verbatim>\<open>Interval\<close> is not part of the sources.
  The spec speaks of a validity interval that can be empty, can be infinite, can be
  narrowed by another interval and can be asked whether it contains a time. An interval
  is a pair of end points; the empty one has both at \<open>TIME_NegInfinity\<close>, and that time,
  which marks emptiness, is contained in no interval.
\<close>

datatype Interval = Interval (ivl_start: TimeValue) (ivl_end: TimeValue)

definition TIME_NegInfinity :: TimeValue where
  "TIME_NegInfinity = - 2147483648"

definition TIME_PosInfinity :: TimeValue where
  "TIME_PosInfinity = 2147483647"

definition FOREVER :: Interval where
  "FOREVER = Interval TIME_NegInfinity TIME_PosInfinity"

definition NEVER :: Interval where
  "NEVER = Interval TIME_NegInfinity TIME_NegInfinity"

definition Empty :: "Interval \<Rightarrow> bool" where
  "Empty i = (ivl_start i = TIME_NegInfinity \<and> ivl_end i = TIME_NegInfinity)"

definition InInterval :: "Interval \<Rightarrow> TimeValue \<Rightarrow> bool" where
  "InInterval i t = (t \<noteq> TIME_NegInfinity \<and> ivl_start i \<le> t \<and> t \<le> ivl_end i)"

text \<open>The operator \<^verbatim>\<open>&\<close> of the class: intersection.\<close>

definition ivl_and :: "Interval \<Rightarrow> Interval \<Rightarrow> Interval" where
  "ivl_and i j =
     (if Empty i \<or> Empty j then NEVER
      else if max (ivl_start i) (ivl_start j) \<le> min (ivl_end i) (ivl_end j)
        then Interval (max (ivl_start i) (ivl_start j)) (min (ivl_end i) (ivl_end j))
        else NEVER)"

subsection \<open>The parameter block\<close>

datatype ParamId =
    ParamIdSurfaceColor
  | ParamIdSurfaceColorTexmap
  | ParamIdReflectionTint
  | ParamIdReflectionTintTexmap
  | ParamIdRefractionTint
  | ParamIdRefractionTintTexmap
  | ParamIdIOR
  | ParamIdRoughness
  | ParamIdRoughnessTexmap
  | ParamIdAnisotropy
  | ParamIdAnisotropyTexmap
  | ParamIdVolumeColor
  | ParamIdVolumeColorTexmap
  | ParamIdScale
  | ParamIdBumpMethod
  | ParamIdBumpTexmap
  | ParamIdBumpAmount
  | ParamIdBumpUpVector

text \<open>
  Modelled from the spec: the host's \<^verbatim>\<open>IParamBlock2\<close> is not part of the sources.
  The spec gives it as \<^verbatim>\<open>get(slot_id, time) -> (value, validity_interval)\<close> and
  \<^verbatim>\<open>set(slot_id, time, value)\<close>. \<^verbatim>\<open>GetValue\<close> is overloaded on the type of the
  variable that receives the value, so the block has one table for each type. It
  narrows the interval it is handed by the interval of the value.
\<close>

record IParamBlock2 =
  pb_color :: "ParamId \<Rightarrow> TimeValue \<Rightarrow> Color \<times> Interval"
  pb_float :: "ParamId \<Rightarrow> TimeValue \<Rightarrow> real \<times> Interval"
  pb_int :: "ParamId \<Rightarrow> TimeValue \<Rightarrow> int \<times> Interval"
  pb_texmap :: "ParamId \<Rightarrow> TimeValue \<Rightarrow> Texmap option \<times> Interval"

definition GetValue_color ::
  "IParamBlock2 \<Rightarrow> ParamId \<Rightarrow> TimeValue \<Rightarrow> Interval \<Rightarrow> Color \<times> Interval" where
  "GetValue_color pb i t valid = (fst (pb_color pb i t), ivl_and valid (snd (pb_color pb i t)))"

definition GetValue_float ::
  "IParamBlock2 \<Rightarrow> ParamId \<Rightarrow> TimeValue \<Rightarrow> Interval \<Rightarrow> real \<times> Interval" where
  "GetValue_float pb i t valid = (fst (pb_float pb i t), ivl_and valid (snd (pb_float pb i t)))"

definition GetValue_int ::
  "IParamBlock2 \<Rightarrow> ParamId \<Rightarrow> TimeValue \<Rightarrow> Interval \<Rightarrow> int \<times> Interval" where
  "GetValue_int pb i t valid = (fst (pb_int pb i t), ivl_and valid (snd (pb_int pb i t)))"

definition GetValue_texmap ::
  "IParamBlock2 \<Rightarrow> ParamId \<Rightarrow> TimeValue \<Rightarrow> Interval \<Rightarrow> Texmap option \<times> Interval" where
  "GetValue_texmap pb i t valid =
     (fst (pb_texmap pb i t), ivl_and valid (snd (pb_texmap pb i t)))"

text \<open>Setting a value at a time makes it the value read at that time; what the host does
  to the other times (keys, controllers) is left as it was.\<close>

definition SetValue_color :: "ParamId \<Rightarrow> TimeValue \<Rightarrow> Color \<Rightarrow> IParamBlock2 \<Rightarrow> IParamBlock2" where
  "SetValue_color i t c pb =
     pb\<lparr>pb_color := (pb_color pb)(i := (pb_color pb i)(t := (c, snd (pb_color pb i t))))\<rparr>"

subsection \<open>The material object\<close>

record AppleseedGlassMtl =
  m_pblock :: IParamBlock2
  m_params_validity :: Interval
  m_surface_color :: Color
  m_surface_color_texmap :: "Texmap option"
  m_reflection_tint :: Color
  m_reflection_tint_texmap :: "Texmap option"
  m_refraction_tint :: Color
  m_refraction_tint_texmap :: "Texmap option"
  m_ior :: real
  m_roughness :: real
  m_roughness_texmap :: "Texmap option"
  m_anisotropy :: real
  m_anisotropy_texmap :: "Texmap option"
  m_volume_color :: Color
  m_volume_color_texmap :: "Texmap option"
  m_scale :: real
  m_bump_method :: int
  m_bump_texmap :: "Texmap option"
  m_bump_amount :: real
  m_bump_up_vector :: int

text \<open>The parameter block that \<^verbatim>\<open>g_block_desc\<close> describes, every parameter at its
  \<^verbatim>\<open>p_default\<close> and not animated.\<close>

definition default_pblock :: IParamBlock2 where
  "default_pblock =
     \<lparr>pb_color = (\<lambda>i t. (Color 1 1 1, FOREVER)),
      pb_float = (\<lambda>i t. (if i = ParamIdIOR then 3 / 2 else if i = ParamIdBumpAmount then 1 else 0,
                          FOREVER)),
      pb_int = (\<lambda>i t. (if i = ParamIdBumpUpVector then 1 else 0, FOREVER)),
      pb_texmap = (\<lambda>i t. (None, FOREVER))\<rparr>"

text \<open>The constructor: the member initialisers, then \<^verbatim>\<open>m_params_validity.SetEmpty()\<close>;
  \<^verbatim>\<open>MakeAutoParamBlocks\<close> gives the object its parameter block.\<close>

definition new_AppleseedGlassMtl :: "IParamBlock2 \<Rightarrow> AppleseedGlassMtl" where
  "new_AppleseedGlassMtl pb =
     \<lparr>m_pblock = pb,
      m_params_validity = NEVER,
      m_surface_color = Color 1 1 1,
      m_surface_color_texmap = None,
      m_reflection_tint = Color 1 1 1,
      m_reflection_tint_texmap = None,
      m_refraction_tint = Color 1 1 1,
      m_refraction_tint_texmap = None,
      m_ior = 3 / 2,
      m_roughness = 0,
      m_roughness_texmap = None,
      m_anisotropy = 0,
      m_anisotropy_texmap = None,
      m_volume_color = Color 1 1 1,
      m_volume_color_texmap = None,
      m_scale = 0,
      m_bump_method = 0,
      m_bump_texmap = None,
      m_bump_amount = 1,
      m_bump_up_vector = 1\<rparr>"

subsection \<open>Refreshing the cached parameters\<close>

datatype RefMessage = REFMSG_CHANGE | REFMSG_OTHER

text \<open>\<^verbatim>\<open>NotifyRefChanged\<close>: a change of a parameter empties the cached interval.\<close>

definition NotifyRefChanged :: "RefMessage \<Rightarrow> AppleseedGlassMtl \<Rightarrow> AppleseedGlassMtl" where
  "NotifyRefChanged message s =
     (case message of
        REFMSG_CHANGE \<Rightarrow> s\<lparr>m_params_validity := NEVER\<rparr>
      | REFMSG_OTHER \<Rightarrow> s)"

text \<open>
  \<^verbatim>\<open>Update(t, valid)\<close> returns the object, the narrowed \<^verbatim>\<open>valid\<close> and the
  messages it sent with \<^verbatim>\<open>NotifyDependents\<close>, in order.
\<close>

definition Update ::
  "TimeValue \<Rightarrow> Interval \<Rightarrow> AppleseedGlassMtl \<Rightarrow> AppleseedGlassMtl \<times> Interval \<times> RefMessage list"
  where
  "Update t valid s =
     (if \<not> InInterval (m_params_validity s) t then
        (let pb = m_pblock s;
             v0 = FOREVER;
             (surface_color, v1) = GetValue_color pb ParamIdSurfaceColor t v0;
             (surface_color_texmap, v2) = GetValue_texmap pb ParamIdSurfaceColorTexmap t v1;
             (reflection_tint, v3) = GetValue_color pb ParamIdReflectionTint t v2;
             (reflection_tint_texmap, v4) = GetValue_texmap pb ParamIdReflectionTintTexmap t v3;
             (refraction_tint, v5) = GetValue_color pb ParamIdRefractionTint t v4;
             (refraction_tint_texmap, v6) = GetValue_texmap pb ParamIdRefractionTintTexmap t v5;
             (ior, v7) = GetValue_float pb ParamIdIOR t v6;
             (roughness, v8) = GetValue_float pb ParamIdRoughness t v7;
             (roughness_texmap, v9) = GetValue_texmap pb ParamIdRoughnessTexmap t v8;
             (anisotropy, v10) = GetValue_float pb ParamIdAnisotropy t v9;
             (anisotropy_texmap, v11) = GetValue_texmap pb ParamIdAnisotropyTexmap t v10;
             (volume_color, v12) = GetValue_color pb ParamIdVolumeColor t v11;
             (volume_color_texmap, v13) = GetValue_texmap pb ParamIdVolumeColorTexmap t v12;
             (scale, v14) = GetValue_float pb ParamIdScale t v13;
             (bump_method, v15) = GetValue_int pb ParamIdBumpMethod t v14;
             (bump_texmap, v16) = GetValue_texmap pb ParamIdBumpTexmap t v15;
             (bump_amount, v17) = GetValue_float pb ParamIdBumpAmount t v16;
             (bump_up_vector, v18) = GetValue_int pb ParamIdBumpUpVector t v17;
             s' = s\<lparr>m_params_validity := v18,
                    m_surface_color := surface_color,
                    m_surface_color_texmap := surface_color_texmap,
                    m_reflection_tint := reflection_tint,
                    m_reflection_tint_texmap := reflection_tint_texmap,
                    m_refraction_tint := refraction_tint,
                    m_refraction_tint_texmap := refraction_tint_texmap,
                    m_ior := ior,
                    m_roughness := roughness,
                    m_roughness_texmap := roughness_texmap,
                    m_anisotropy := anisotropy,
                    m_anisotropy_texmap := anisotropy_texmap,
                    m_volume_color := volume_color,
                    m_volume_color_texmap := volume_color_texmap,
                    m_scale := scale,
                    m_bump_method := bump_method,
                    m_bump_texmap := bump_texmap,
                    m_bump_amount := bump_amount,
                    m_bump_up_vector := bump_up_vector\<rparr>
         in (s', ivl_and valid (m_params_validity s'), [REFMSG_CHANGE]))
      else (s, ivl_and valid (m_params_validity s), []))"

text \<open>The host's side of \<^verbatim>\<open>GetValue\<close>: the interval that comes with a value read at
  \<open>t\<close> contains \<open>t\<close>. The eighteen parameters are those that \<open>Update\<close> reads.\<close>

definition color_params :: "ParamId list" where
  "color_params =
     [ParamIdSurfaceColor, ParamIdReflectionTint, ParamIdRefractionTint, ParamIdVolumeColor]"

definition float_params :: "ParamId list" where
  "float_params =
     [ParamIdIOR, ParamIdRoughness, ParamIdAnisotropy, ParamIdScale, ParamIdBumpAmount]"

definition int_params :: "ParamId list" where
  "int_params = [ParamIdBumpMethod, ParamIdBumpUpVector]"

definition texmap_params :: "ParamId list" where
  "texmap_params =
     [ParamIdSurfaceColorTexmap, ParamIdReflectionTintTexmap, ParamIdRefractionTintTexmap,
      ParamIdRoughnessTexmap, ParamIdAnisotropyTexmap, ParamIdVolumeColorTexmap,
      ParamIdBumpTexmap]"

definition intervals_contain :: "IParamBlock2 \<Rightarrow> TimeValue \<Rightarrow> bool" where
  "intervals_contain pb t =
     (list_all (\<lambda>i. InInterval (snd (pb_color pb i t)) t) color_params \<and>
      list_all (\<lambda>i. InInterval (snd (pb_float pb i t)) t) float_params \<and>
      list_all (\<lambda>i. InInterval (snd (pb_int pb i t)) t) int_params \<and>
      list_all (\<lambda>i. InInterval (snd (pb_texmap pb i t)) t) texmap_params)"

subsection \<open>The legacy shading queries\<close>

definition GetDiffuse :: "AppleseedGlassMtl \<Rightarrow> Color" where
  "GetDiffuse s = m_surface_color s"

text \<open>
  Modelled from the spec: \<^verbatim>\<open>RGBtoHSV\<close> (\<^verbatim>\<open>hsv.h\<close>) belongs to the host and is not
  part of the sources. The spec: the colour converted to a hue-saturation-value
  representation, the value being the brightness channel. The result is a \<^verbatim>\<open>Color\<close>
  whose members \<^verbatim>\<open>r\<close>, \<^verbatim>\<open>g\<close>, \<^verbatim>\<open>b\<close> hold hue, saturation and value, the hue as a
  fraction of the full turn.
\<close>

definition RGBtoHSV :: "Color \<Rightarrow> Color" where
  "RGBtoHSV c =
     (let r = color_r c; g = color_g c; b = color_b c;
          mx = max r (max g b);
          mn = min r (min g b);
          delta = mx - mn;
          s = (if mx = 0 then 0 else delta / mx);
          h = (if delta = 0 then 0
               else (if r = mx then (g - b) / delta
                     else if g = mx then 2 + (b - r) / delta
                     else 4 + (r - g) / delta) / 6);
          h = (if h < 0 then h + 1 else h)
      in Color h s mx)"

definition GetXParency :: "AppleseedGlassMtl \<Rightarrow> real" where
  "GetXParency s = color_b (RGBtoHSV (m_surface_color s)) * color_b (RGBtoHSV (m_refraction_tint s))"

definition SetDiffuse :: "Color \<Rightarrow> TimeValue \<Rightarrow> AppleseedGlassMtl \<Rightarrow> AppleseedGlassMtl" where
  "SetDiffuse c t s =
     (let s1 = s\<lparr>m_pblock := SetValue_color ParamIdSurfaceColor t c (m_pblock s)\<rparr>
      in s1\<lparr>m_surface_color := c\<rparr>)"

section \<open>The scene of the renderer\<close>

subsection \<open>Parameter arrays\<close>

text \<open>
  Modelled from the spec: \<^verbatim>\<open>fmt_osl_expr\<close> (\<^verbatim>\<open>oslutils.h\<close>) is not part of the
  sources. The spec calls its results literal expressions attached to a node; the
  expression keeps the value it was made from. The time of a texture expression is the
  time at which the texture is evaluated.
\<close>

datatype osl_expr =
    OslColor Color3f
  | OslFloat real
  | OslString string
  | OslTexmap Texmap TimeValue

text \<open>The renderer's \<^verbatim>\<open>ParamArray\<close>: \<^verbatim>\<open>insert\<close> binds a key, replacing an older
  binding of the same key.\<close>

datatype param_value = PString string | PFloat real | PExpr osl_expr

type_synonym ParamArray = "(string \<times> param_value) list"

definition insert_param :: "string \<Rightarrow> param_value \<Rightarrow> ParamArray \<Rightarrow> ParamArray" where
  "insert_param k v ps = AList.update k v ps"

subsection \<open>Entities\<close>

record TextureEntity =
  tex_name :: string
  tex_source :: Texmap
  tex_procedural :: bool
  tex_time :: TimeValue
  tex_params :: ParamArray

record TextureInstance =
  inst_name :: string
  inst_texture :: string

record BSDF =
  bsdf_model :: string
  bsdf_name :: string
  bsdf_params :: ParamArray

record Shader =
  sh_type :: string
  sh_name :: string
  sh_layer :: string
  sh_params :: ParamArray

record Connection =
  src_layer :: string
  src_param :: string
  dst_layer :: string
  dst_param :: string

record ShaderGroup =
  sg_name :: string
  sg_shaders :: "Shader list"
  sg_connections :: "Connection list"

record Material =
  mat_model :: string
  mat_name :: string
  mat_params :: ParamArray

record Assembly =
  asm_colors :: "(string \<times> Color3f) list"
  asm_textures :: "TextureEntity list"
  asm_texture_instances :: "TextureInstance list"
  asm_bsdfs :: "BSDF list"
  asm_shader_groups :: "ShaderGroup list"

definition empty_assembly :: Assembly where
  "empty_assembly =
     \<lparr>asm_colors = [], asm_textures = [], asm_texture_instances = [], asm_bsdfs = [],
      asm_shader_groups = []\<rparr>"

definition ShaderGroupFactory_create :: "string \<Rightarrow> ShaderGroup" where
  "ShaderGroupFactory_create n = \<lparr>sg_name = n, sg_shaders = [], sg_connections = []\<rparr>"

definition add_shader ::
  "string \<Rightarrow> string \<Rightarrow> string \<Rightarrow> ParamArray \<Rightarrow> ShaderGroup \<Rightarrow> ShaderGroup" where
  "add_shader type name layer params sg =
     sg\<lparr>sg_shaders := sg_shaders sg @
          [\<lparr>sh_type = type, sh_name = name, sh_layer = layer, sh_params = params\<rparr>]\<rparr>"

definition add_connection ::
  "string \<Rightarrow> string \<Rightarrow> string \<Rightarrow> string \<Rightarrow> ShaderGroup \<Rightarrow> ShaderGroup" where
  "add_connection sl sp dl dp sg =
     sg\<lparr>sg_connections := sg_connections sg @
          [\<lparr>src_layer = sl, src_param = sp, dst_layer = dl, dst_param = dp\<rparr>]\<rparr>"

text \<open>
  What an input pin of a node of a shader group is bound to: a connection into the pin
  takes precedence over the literal expression that the node carries for it.
\<close>

datatype pin_binding = Connected string string | Literal param_value | Unbound

definition node_param :: "ShaderGroup \<Rightarrow> string \<Rightarrow> string \<Rightarrow> param_value option" where
  "node_param sg layer pin =
     (case find (\<lambda>sh. sh_layer sh = layer) (sg_shaders sg) of
        Some sh \<Rightarrow> map_of (sh_params sh) pin
      | None \<Rightarrow> None)"

definition pin_binding_of :: "ShaderGroup \<Rightarrow> string \<Rightarrow> string \<Rightarrow> pin_binding" where
  "pin_binding_of sg layer pin =
     (case find (\<lambda>c. dst_layer c = layer \<and> dst_param c = pin) (sg_connections sg) of
        Some c \<Rightarrow> Connected (src_layer c) (src_param c)
      | None \<Rightarrow> (case node_param sg layer pin of Some v \<Rightarrow> Literal v | None \<Rightarrow> Unbound))"

subsection \<open>Helpers of the plugin that the material calls\<close>

fun string_of_nat :: "nat \<Rightarrow> string" where
  "string_of_nat n =
     (if n < 10 then [''0123456789'' ! n]
      else string_of_nat (n div 10) @ [''0123456789'' ! (n mod 10)])"

declare string_of_nat.simps [simp del]

fun unique_from :: "string list \<Rightarrow> string \<Rightarrow> nat \<Rightarrow> nat \<Rightarrow> string" where
  "unique_from names base i 0 = base @ string_of_nat i"
| "unique_from names base i (Suc fuel) =
     (if base @ string_of_nat i \<in> set names then unique_from names base (Suc i) fuel
      else base @ string_of_nat i)"

text \<open>
  Modelled from the spec: \<^verbatim>\<open>make_unique_name\<close> (\<^verbatim>\<open>utilities.h\<close>) is not part of the
  sources. The spec asks for names made unique deterministically, for example by
  suffixing: the base name gets the first number, from 1 on, that no entity of the
  container has. Among \<open>length names + 1\<close> candidates one is free.
\<close>

definition make_unique_name :: "string list \<Rightarrow> string \<Rightarrow> string" where
  "make_unique_name names base = unique_from names base 1 (length names)"

text \<open>
  Modelled from the spec: \<^verbatim>\<open>insert_texture_and_instance\<close> (\<^verbatim>\<open>utilities.h\<close>) is not
  part of the sources. The spec: if a texture is bound, instantiate it as a standalone
  scene object and return its identifier. With no texture it returns the empty string,
  which is what the callers in the material test. The texture gets the parameters it is
  handed; a caller that passes none hands over the empty array.
\<close>

definition insert_texture_and_instance ::
  "Assembly \<Rightarrow> Texmap option \<Rightarrow> bool \<Rightarrow> TimeValue \<Rightarrow> ParamArray \<Rightarrow> Assembly \<times> string" where
  "insert_texture_and_instance assembly texmap use_max_procedural_maps time texture_params =
     (case texmap of
        None \<Rightarrow> (assembly, [])
      | Some tm \<Rightarrow>
          (let texture_name =
                 make_unique_name (map tex_name (asm_textures assembly)) ''texture'';
               instance_name =
                 make_unique_name (map inst_name (asm_texture_instances assembly))
                   (texture_name @ ''_inst'');
               assembly = assembly\<lparr>asm_textures := asm_textures assembly @
                 [\<lparr>tex_name = texture_name, tex_source = tm,
                   tex_procedural = use_max_procedural_maps, tex_time = time,
                   tex_params = texture_params\<rparr>]\<rparr>;
               assembly = assembly\<lparr>asm_texture_instances := asm_texture_instances assembly @
                 [\<lparr>inst_name = instance_name, inst_texture = texture_name\<rparr>]\<rparr>
           in (assembly, instance_name)))"

text \<open>
  Modelled from the spec: \<^verbatim>\<open>insert_color\<close> (\<^verbatim>\<open>utilities.h\<close>) is not part of the
  sources. The spec: insert a new named constant object into the scene.
\<close>

definition insert_color :: "Assembly \<Rightarrow> Color \<Rightarrow> string \<Rightarrow> Assembly" where
  "insert_color assembly c n = assembly\<lparr>asm_colors := asm_colors assembly @ [(n, to_color3f c)]\<rparr>"

text \<open>
  Modelled from the spec: \<^verbatim>\<open>connect_color_texture\<close> and \<^verbatim>\<open>connect_float_texture\<close>
  (\<^verbatim>\<open>oslutils.h\<close>) are not part of the sources. The spec: construct a uniquely-named
  adapter node per slot, connect the texture's output (if bound) or the constant (if not)
  to the adapter's input, and connect the adapter's output to the target input pin on the
  main shading node.
\<close>

definition connect_color_texture ::
  "ShaderGroup \<Rightarrow> string \<Rightarrow> string \<Rightarrow> Texmap option \<Rightarrow> Color \<Rightarrow> TimeValue \<Rightarrow> ShaderGroup" where
  "connect_color_texture sg material_node_name material_input_name texmap c time =
     (let layer_name = material_node_name @ ''_'' @ material_input_name;
          input = (case texmap of
                     Some tm \<Rightarrow> OslTexmap tm time
                   | None \<Rightarrow> OslColor (to_color3f c));
          sg = add_shader ''shader'' ''color_adapter'' layer_name
                 (insert_param ''input'' (PExpr input) []) sg
      in add_connection layer_name ''output'' material_node_name material_input_name sg)"

definition connect_float_texture ::
  "ShaderGroup \<Rightarrow> string \<Rightarrow> string \<Rightarrow> Texmap option \<Rightarrow> real \<Rightarrow> TimeValue \<Rightarrow> ShaderGroup" where
  "connect_float_texture sg material_node_name material_input_name texmap x time =
     (let layer_name = material_node_name @ ''_'' @ material_input_name;
          input = (case texmap of
                     Some tm \<Rightarrow> OslTexmap tm time
                   | None \<Rightarrow> OslFloat x);
          sg = add_shader ''shader'' ''float_adapter'' layer_name
                 (insert_param ''input'' (PExpr input) []) sg
      in add_connection layer_name ''output'' material_node_name material_input_name sg)"

text \<open>
  Modelled from the spec: \<^verbatim>\<open>connect_bump_map\<close> and \<^verbatim>\<open>connect_normal_map\<close>
  (\<^verbatim>\<open>oslutils.h\<close>) are not part of the sources. The spec: a no-op if the bump texture
  is unset; for bump, insert a height-to-normal adapter node wired from the bump texture
  into the main shading node's normal input, parameterized by the amount; for normal,
  insert a tangent-space-normal adapter node wired similarly, additionally parameterized
  by the up vector (Y or Z).
\<close>

definition connect_bump_map ::
  "ShaderGroup \<Rightarrow> string \<Rightarrow> string \<Rightarrow> string \<Rightarrow> Texmap option \<Rightarrow> real \<Rightarrow> TimeValue \<Rightarrow> ShaderGroup"
  where
  "connect_bump_map sg material_node_name material_normal_input_name material_tn_input_name
       texmap amount time =
     (case texmap of
        None \<Rightarrow> sg
      | Some tm \<Rightarrow>
          (let layer_name = material_node_name @ ''_bump_map'';
               params = insert_param ''input'' (PExpr (OslTexmap tm time)) [];
               params = insert_param ''amount'' (PExpr (OslFloat amount)) params;
               sg = add_shader ''shader'' ''bump_adapter'' layer_name params sg
           in add_connection layer_name ''output'' material_node_name
                material_normal_input_name sg))"

definition connect_normal_map ::
  "ShaderGroup \<Rightarrow> string \<Rightarrow> string \<Rightarrow> string \<Rightarrow> Texmap option \<Rightarrow> int \<Rightarrow> real \<Rightarrow> TimeValue
     \<Rightarrow> ShaderGroup" where
  "connect_normal_map sg material_node_name material_normal_input_name material_tn_input_name
       texmap up_vector amount time =
     (case texmap of
        None \<Rightarrow> sg
      | Some tm \<Rightarrow>
          (let layer_name = material_node_name @ ''_normal_map'';
               params = insert_param ''input'' (PExpr (OslTexmap tm time)) [];
               params = insert_param ''up_vector''
                          (PExpr (OslString (if up_vector = 0 then ''y'' else ''z''))) params;
               params = insert_param ''amount'' (PExpr (OslFloat amount)) params;
               sg = add_shader ''shader'' ''normal_adapter'' layer_name params sg
           in add_connection layer_name ''output'' material_node_name
                material_normal_input_name sg))"

section \<open>The two compilers\<close>

subsection \<open>The shader-graph compiler\<close>

definition create_osl_material ::
  "AppleseedGlassMtl \<Rightarrow> Assembly \<Rightarrow> string \<Rightarrow> TimeValue \<Rightarrow> Assembly \<times> Material" where
  "create_osl_material s assembly name time =
     (let shader_group_name =
            make_unique_name (map sg_name (asm_shader_groups assembly)) (name @ ''_shader_group'');
          shader_group = ShaderGroupFactory_create shader_group_name;
          shader_group = connect_color_texture shader_group name ''SurfaceTransmittance''
                           (m_surface_color_texmap s) (m_surface_color s) time;
          shader_group = connect_color_texture shader_group name ''ReflectionTint''
                           (m_reflection_tint_texmap s) (m_reflection_tint s) time;
          shader_group = connect_color_texture shader_group name ''RefractionTint''
                           (m_refraction_tint_texmap s) (m_refraction_tint s) time;
          shader_group = connect_color_texture shader_group name ''VolumeTransmittance''
                           (m_volume_color_texmap s) (m_volume_color s) time;
          shader_group = connect_float_texture shader_group name ''Roughness''
                           (m_roughness_texmap s) (m_roughness s / 100) time;
          shader_group = connect_float_texture shader_group name ''Anisotropic''
                           (m_anisotropy_texmap s) (m_anisotropy s / 100) time;
          shader_group =
            (if m_bump_texmap s \<noteq> None then
               (if m_bump_method s = 0 then
                  connect_bump_map shader_group name ''Normal'' ''Tn'' (m_bump_texmap s)
                    (m_bump_amount s) time
                else
                  connect_normal_map shader_group name ''Normal'' ''Tn'' (m_bump_texmap s)
                    (m_bump_up_vector s) (m_bump_amount s) time)
             else shader_group);
          params = [];
          params = insert_param ''SurfaceTransmittance''
                     (PExpr (OslColor (to_color3f (m_surface_color s)))) params;
          params = insert_param ''ReflectionTint''
                     (PExpr (OslColor (to_color3f (m_reflection_tint s)))) params;
          params = insert_param ''RefractionTint''
                     (PExpr (OslColor (to_color3f (m_refraction_tint s)))) params;
          params = insert_param ''VolumeTransmittance''
                     (PExpr (OslColor (to_color3f (m_volume_color s)))) params;
          params = insert_param ''Roughness'' (PExpr (OslFloat (m_roughness s / 100))) params;
          params = insert_param ''Anisotropic'' (PExpr (OslFloat (m_anisotropy s / 100))) params;
          params = insert_param ''Ior'' (PExpr (OslFloat (m_ior s))) params;
          params = insert_param ''VolumeTransmittanceDistance''
                     (PExpr (OslFloat (m_scale s))) params;
          params = insert_param ''Distribution'' (PExpr (OslString ''ggx'')) params;
          shader_group = add_shader ''surface'' ''as_max_glass_material'' name params shader_group;
          closure2surface_name = name @ ''_closure2surface'';
          shader_group = add_shader ''shader'' ''as_max_closure2surface'' closure2surface_name []
                           shader_group;
          shader_group = add_connection name ''ClosureOut'' closure2surface_name ''in_input''
                           shader_group;
          assembly = assembly\<lparr>asm_shader_groups := asm_shader_groups assembly @ [shader_group]\<rparr>;
          material_params = [];
          material_params = insert_param ''osl_surface'' (PString shader_group_name)
                              material_params
      in (assembly,
          \<lparr>mat_model = ''osl_material'', mat_name = name, mat_params = material_params\<rparr>))"

subsection \<open>The fixed-function compiler\<close>

text \<open>
  The block of \<^verbatim>\<open>create_builtin_material\<close> that fills \<^verbatim>\<open>bsdf_params\<close> works on
  two variables, the assembly and the parameter array. Each commented section of the block
  that resolves an input is a function on this pair; the block runs them in order.
\<close>

definition bsdf_surface_transmittance ::
  "AppleseedGlassMtl \<Rightarrow> string \<Rightarrow> TimeValue \<Rightarrow> Assembly \<times> ParamArray \<Rightarrow> Assembly \<times> ParamArray"
  where
  "bsdf_surface_transmittance s name time x =
     (let (assembly, bsdf_params) = x;
          (assembly, instance_name) =
            insert_texture_and_instance assembly (m_surface_color_texmap s) True time []
      in if instance_name \<noteq> [] then
           (assembly, insert_param ''surface_transmittance'' (PString instance_name) bsdf_params)
         else
           (let color_name = name @ ''_bsdf_surface_transmittance'';
                assembly = insert_color assembly (m_surface_color s) color_name
            in (assembly, insert_param ''surface_transmittance'' (PString color_name) bsdf_params)))"

definition bsdf_reflection_tint ::
  "AppleseedGlassMtl \<Rightarrow> string \<Rightarrow> TimeValue \<Rightarrow> Assembly \<times> ParamArray \<Rightarrow> Assembly \<times> ParamArray"
  where
  "bsdf_reflection_tint s name time x =
     (let (assembly, bsdf_params) = x;
          (assembly, instance_name) =
            insert_texture_and_instance assembly (m_reflection_tint_texmap s) True time []
      in if instance_name \<noteq> [] then
           (assembly, insert_param ''reflection_tint'' (PString instance_name) bsdf_params)
         else
           (let color_name = name @ ''_bsdf_reflection_tint'';
                assembly = insert_color assembly (m_reflection_tint s) color_name
            in (assembly, insert_param ''reflection_tint'' (PString color_name) bsdf_params)))"

definition bsdf_refraction_tint ::
  "AppleseedGlassMtl \<Rightarrow> string \<Rightarrow> TimeValue \<Rightarrow> Assembly \<times> ParamArray \<Rightarrow> Assembly \<times> ParamArray"
  where
  "bsdf_refraction_tint s name time x =
     (let (assembly, bsdf_params) = x;
          (assembly, instance_name) =
            insert_texture_and_instance assembly (m_refraction_tint_texmap s) True time []
      in if instance_name \<noteq> [] then
           (assembly, insert_param ''refraction_tint'' (PString instance_name) bsdf_params)
         else
           (let color_name = name @ ''_bsdf_refraction_tint'';
                assembly = insert_color assembly (m_refraction_tint s) color_name
            in (assembly, insert_param ''refraction_tint'' (PString color_name) bsdf_params)))"

definition bsdf_roughness ::
  "AppleseedGlassMtl \<Rightarrow> TimeValue \<Rightarrow> Assembly \<times> ParamArray \<Rightarrow> Assembly \<times> ParamArray" where
  "bsdf_roughness s time x =
     (let (assembly, bsdf_params) = x;
          (assembly, instance_name) =
            insert_texture_and_instance assembly (m_roughness_texmap s) True time []
      in if instance_name \<noteq> [] then
           (assembly, insert_param ''roughness'' (PString instance_name) bsdf_params)
         else (assembly, insert_param ''roughness'' (PFloat (m_roughness s / 100)) bsdf_params))"

definition bsdf_anisotropy ::
  "AppleseedGlassMtl \<Rightarrow> TimeValue \<Rightarrow> Assembly \<times> ParamArray \<Rightarrow> Assembly \<times> ParamArray" where
  "bsdf_anisotropy s time x =
     (let (assembly, bsdf_params) = x;
          (assembly, instance_name) =
            insert_texture_and_instance assembly (m_anisotropy_texmap s) True time []
      in if instance_name \<noteq> [] then
           (assembly, insert_param ''anisotropic'' (PString instance_name) bsdf_params)
         else (assembly, insert_param ''anisotropic'' (PFloat (m_anisotropy s)) bsdf_params))"

definition bsdf_volume_transmittance ::
  "AppleseedGlassMtl \<Rightarrow> string \<Rightarrow> TimeValue \<Rightarrow> Assembly \<times> ParamArray \<Rightarrow> Assembly \<times> ParamArray"
  where
  "bsdf_volume_transmittance s name time x =
     (let (assembly, bsdf_params) = x;
          (assembly, instance_name) =
            insert_texture_and_instance assembly (m_volume_color_texmap s) True time []
      in if instance_name \<noteq> [] then
           (assembly, insert_param ''volume_transmittance'' (PString instance_name) bsdf_params)
         else
           (let color_name = name @ ''_bsdf_volume_transmittance'';
                assembly = insert_color assembly (m_volume_color s) color_name
            in (assembly, insert_param ''volume_transmittance'' (PString color_name) bsdf_params)))"

definition builtin_bsdf_params ::
  "AppleseedGlassMtl \<Rightarrow> Assembly \<Rightarrow> string \<Rightarrow> TimeValue \<Rightarrow> Assembly \<times> ParamArray" where
  "builtin_bsdf_params s assembly name time =
     (let x = (assembly, insert_param ''mdf'' (PString ''ggx'') []);
          x = bsdf_surface_transmittance s name time x;
          x = bsdf_reflection_tint s name time x;
          x = bsdf_refraction_tint s name time x;
          x = apsnd (insert_param ''ior'' (PFloat (m_ior s))) x;
          x = bsdf_roughness s time x;
          x = bsdf_anisotropy s time x;
          x = apsnd (insert_param ''volume_parameterization'' (PString ''transmittance'')) x;
          x = bsdf_volume_transmittance s name time x;
          x = apsnd (insert_param ''volume_transmittance_distance'' (PFloat (m_scale s))) x
      in x)"

definition create_builtin_material ::
  "AppleseedGlassMtl \<Rightarrow> Assembly \<Rightarrow> string \<Rightarrow> TimeValue \<Rightarrow> Assembly \<times> Material" where
  "create_builtin_material s assembly name time =
     (let material_params = [];
          use_max_procedural_maps = True;
          (assembly, bsdf_params) = builtin_bsdf_params s assembly name time;
          bsdf_name = name @ ''_bsdf'';
          assembly = assembly\<lparr>asm_bsdfs := asm_bsdfs assembly @
            [\<lparr>bsdf_model = ''glass_bsdf'', bsdf_name = bsdf_name, bsdf_params = bsdf_params\<rparr>]\<rparr>;
          material_params = insert_param ''bsdf'' (PString bsdf_name) material_params;
          (assembly, instance_name) =
            insert_texture_and_instance assembly (m_bump_texmap s) use_max_procedural_maps time
              (insert_param ''color_space'' (PString ''linear_rgb'') []);
          material_params =
            (if instance_name \<noteq> [] then
               (let material_params =
                      insert_param ''displacement_method''
                        (PString (if m_bump_method s = 0 then ''bump'' else ''normal''))
                        material_params;
                    material_params =
                      insert_param ''displacement_map'' (PString instance_name) material_params
                in if m_bump_method s = 0 then
                     (let material_params =
                            insert_param ''bump_amplitude'' (PFloat (m_bump_amount s))
                              material_params
                      in insert_param ''bump_offset'' (PFloat (1 / 2)) material_params)
                   else if m_bump_method s = 1 then
                     insert_param ''normal_map_up''
                       (PString (if m_bump_up_vector s = 0 then ''y'' else ''z''))
                       material_params
                   else material_params)
             else material_params)
      in (assembly,
          \<lparr>mat_model = ''generic_material'', mat_name = name, mat_params = material_params\<rparr>))"

text \<open>What the compilers leave in the scene: the shader group that the shader-graph
  compiler registered, the BSDF that the fixed-function compiler inserted.\<close>

definition osl_shader_group ::
  "AppleseedGlassMtl \<Rightarrow> Assembly \<Rightarrow> string \<Rightarrow> TimeValue \<Rightarrow> ShaderGroup" where
  "osl_shader_group s assembly name time =
     last (asm_shader_groups (fst (create_osl_material s assembly name time)))"

definition builtin_bsdf :: "AppleseedGlassMtl \<Rightarrow> Assembly \<Rightarrow> string \<Rightarrow> TimeValue \<Rightarrow> BSDF" where
  "builtin_bsdf s assembly name time =
     last (asm_bsdfs (fst (create_builtin_material s assembly name time)))"

text \<open>
  An identifier refers to a texture of the scene with a property \<open>P\<close>: it names a texture
  instance of the assembly, and the instance names a texture entity of the assembly that
  has \<open>P\<close>.
\<close>

definition instance_refers :: "Assembly \<Rightarrow> string \<Rightarrow> (TextureEntity \<Rightarrow> bool) \<Rightarrow> bool" where
  "instance_refers assembly n P =
     list_ex (\<lambda>i. inst_name i = n \<and>
                  list_ex (\<lambda>e. tex_name e = inst_texture i \<and> P e) (asm_textures assembly))
       (asm_texture_instances assembly)"

text \<open>A parameter of a parameter array refers to a texture with a property \<open>P\<close>: it is
  bound to a string, and the string is such an identifier.\<close>

definition param_refers ::
  "Assembly \<Rightarrow> ParamArray \<Rightarrow> string \<Rightarrow> (TextureEntity \<Rightarrow> bool) \<Rightarrow> bool" where
  "param_refers assembly params k P =
     (case map_of params k of
        Some (PString inst) \<Rightarrow> instance_refers assembly inst P
      | _ \<Rightarrow> False)"

text \<open>The scene only grows: every colour, texture and texture instance of \<open>a\<close> is one
  of \<open>b\<close>.\<close>

definition asm_le :: "Assembly \<Rightarrow> Assembly \<Rightarrow> bool" where
  "asm_le a b \<longleftrightarrow>
     set (asm_colors a) \<subseteq> set (asm_colors b) \<and>
     set (asm_textures a) \<subseteq> set (asm_textures b) \<and>
     set (asm_texture_instances a) \<subseteq> set (asm_texture_instances b)"

text \<open>The six inputs of the glass model that take a constant or a texture, the member that
  holds the texture of each, and the names under which the two compilers bind them.\<close>

datatype input_slot =
    SlotSurfaceColor
  | SlotReflectionTint
  | SlotRefractionTint
  | SlotVolumeColor
  | SlotRoughness
  | SlotAnisotropy

fun slot_texmap :: "AppleseedGlassMtl \<Rightarrow> input_slot \<Rightarrow> Texmap option" where
  "slot_texmap s SlotSurfaceColor = m_surface_color_texmap s"
| "slot_texmap s SlotReflectionTint = m_reflection_tint_texmap s"
| "slot_texmap s SlotRefractionTint = m_refraction_tint_texmap s"
| "slot_texmap s SlotVolumeColor = m_volume_color_texmap s"
| "slot_texmap s SlotRoughness = m_roughness_texmap s"
| "slot_texmap s SlotAnisotropy = m_anisotropy_texmap s"

fun slot_bsdf_key :: "input_slot \<Rightarrow> string" where
  "slot_bsdf_key SlotSurfaceColor = ''surface_transmittance''"
| "slot_bsdf_key SlotReflectionTint = ''reflection_tint''"
| "slot_bsdf_key SlotRefractionTint = ''refraction_tint''"
| "slot_bsdf_key SlotVolumeColor = ''volume_transmittance''"
| "slot_bsdf_key SlotRoughness = ''roughness''"
| "slot_bsdf_key SlotAnisotropy = ''anisotropic''"

fun slot_osl_pin :: "input_slot \<Rightarrow> string" where
  "slot_osl_pin SlotSurfaceColor = ''SurfaceTransmittance''"
| "slot_osl_pin SlotReflectionTint = ''ReflectionTint''"
| "slot_osl_pin SlotRefractionTint = ''RefractionTint''"
| "slot_osl_pin SlotVolumeColor = ''VolumeTransmittance''"
| "slot_osl_pin SlotRoughness = ''Roughness''"
| "slot_osl_pin SlotAnisotropy = ''Anisotropic''"

text \<open>The constant of a slot as each compiler binds it when no texture is bound: the
  fixed-function compiler names a colour entity that it inserts, or stores the number; the
  shader-graph compiler hands the adapter a literal expression.\<close>

fun slot_builtin_constant :: "AppleseedGlassMtl \<Rightarrow> string \<Rightarrow> input_slot \<Rightarrow> param_value" where
  "slot_builtin_constant s name SlotSurfaceColor = PString (name @ ''_bsdf_surface_transmittance'')"
| "slot_builtin_constant s name SlotReflectionTint = PString (name @ ''_bsdf_reflection_tint'')"
| "slot_builtin_constant s name SlotRefractionTint = PString (name @ ''_bsdf_refraction_tint'')"
| "slot_builtin_constant s name SlotVolumeColor = PString (name @ ''_bsdf_volume_transmittance'')"
| "slot_builtin_constant s name SlotRoughness = PFloat (m_roughness s / 100)"
| "slot_builtin_constant s name SlotAnisotropy = PFloat (m_anisotropy s)"

text \<open>The colour entity that the fixed-function compiler inserts for the constant of a
  colour slot.\<close>

fun slot_color_entity ::
  "AppleseedGlassMtl \<Rightarrow> string \<Rightarrow> input_slot \<Rightarrow> (string \<times> Color3f) option" where
  "slot_color_entity s name SlotSurfaceColor =
     Some (name @ ''_bsdf_surface_transmittance'', to_color3f (m_surface_color s))"
| "slot_color_entity s name SlotReflectionTint =
     Some (name @ ''_bsdf_reflection_tint'', to_color3f (m_reflection_tint s))"
| "slot_color_entity s name SlotRefractionTint =
     Some (name @ ''_bsdf_refraction_tint'', to_color3f (m_refraction_tint s))"
| "slot_color_entity s name SlotVolumeColor =
     Some (name @ ''_bsdf_volume_transmittance'', to_color3f (m_volume_color s))"
| "slot_color_entity s name SlotRoughness = None"
| "slot_color_entity s name SlotAnisotropy = None"

fun slot_osl_constant :: "AppleseedGlassMtl \<Rightarrow> input_slot \<Rightarrow> osl_expr" where
  "slot_osl_constant s SlotSurfaceColor = OslColor (to_color3f (m_surface_color s))"
| "slot_osl_constant s SlotReflectionTint = OslColor (to_color3f (m_reflection_tint s))"
| "slot_osl_constant s SlotRefractionTint = OslColor (to_color3f (m_refraction_tint s))"
| "slot_osl_constant s SlotVolumeColor = OslColor (to_color3f (m_volume_color s))"
| "slot_osl_constant s SlotRoughness = OslFloat (m_roughness s / 100)"
| "slot_osl_constant s SlotAnisotropy = OslFloat (m_anisotropy s / 100)"

text \<open>\<^verbatim>\<open>create_material\<close>: the caller's flag selects the compiler.\<close>

definition create_material ::
  "AppleseedGlassMtl \<Rightarrow> Assembly \<Rightarrow> string \<Rightarrow> bool \<Rightarrow> TimeValue \<Rightarrow> Assembly \<times> Material" where
  "create_material s assembly name use_max_procedural_maps time =
     (if use_max_procedural_maps then create_builtin_material s assembly name time
      else create_osl_material s assembly name time)"

section \<open>Persistence\<close>

unbundle bit_operations_syntax

datatype IOResult = IO_OK | IO_END | IO_ERROR

type_synonym USHORT = "16 word"

type_synonym byte = "8 word"

text \<open>
  The chunk identifiers of \<^verbatim>\<open>datachunks.h\<close> and the file format version of
  \<^verbatim>\<open>version.h\<close> are not part of the sources. The identifiers are parameters of
  \<open>Save\<close> and \<open>Load\<close>; the file format version is a parameter of \<open>Save\<close> only,
  since \<open>Load\<close> does not refer to it.
\<close>

record DataChunks =
  ChunkFileFormatVersion :: USHORT
  ChunkMtlBase :: USHORT

text \<open>An object of \<^verbatim>\<open>sizeof(USHORT)\<close> bytes as the host's streams carry it, low byte
  first.\<close>

definition bytes_of_USHORT :: "USHORT \<Rightarrow> byte list" where
  "bytes_of_USHORT v = [ucast v, ucast (drop_bit 8 v)]"

definition USHORT_of_bytes :: "byte \<Rightarrow> byte \<Rightarrow> USHORT" where
  "USHORT_of_bytes lo hi = ucast lo OR push_bit 8 (ucast hi)"

subsection \<open>The stream that is written\<close>

text \<open>
  Modelled from the spec: the host's \<^verbatim>\<open>ISave\<close> is not part of the sources. The spec has
  chunks written one after the other and I/O failure as the one failure. The stream is
  the list of the chunks begun so far, the last one being open; the device accepts
  \<open>space\<close> more bytes and fails a write that asks for more, after taking what fits.
\<close>

record StreamChunk =
  chunk_id :: USHORT
  chunk_data :: "byte list"

record ISave =
  saved :: "StreamChunk list"
  space :: nat

definition BeginChunk :: "USHORT \<Rightarrow> ISave \<Rightarrow> ISave" where
  "BeginChunk i isave = isave\<lparr>saved := saved isave @ [\<lparr>chunk_id = i, chunk_data = []\<rparr>]\<rparr>"

definition EndChunk :: "ISave \<Rightarrow> ISave" where
  "EndChunk isave = isave"

text \<open>\<^verbatim>\<open>ISave::Write(buf, nbytes, &nwritten)\<close>: the stream, the result and the number of
  bytes written.\<close>

definition append_to_open :: "byte list \<Rightarrow> StreamChunk list \<Rightarrow> StreamChunk list" where
  "append_to_open bs cs =
     (case rev cs of
        [] \<Rightarrow> []
      | c # rest \<Rightarrow> rev rest @ [c\<lparr>chunk_data := chunk_data c @ bs\<rparr>])"

definition ISave_Write :: "byte list \<Rightarrow> ISave \<Rightarrow> ISave \<times> IOResult \<times> nat" where
  "ISave_Write bs isave =
     (if length bs \<le> space isave then
        (\<lparr>saved = append_to_open bs (saved isave), space = space isave - length bs\<rparr>,
         IO_OK, length bs)
      else
        (\<lparr>saved = append_to_open (take (space isave) bs) (saved isave), space = 0\<rparr>,
         IO_ERROR, space isave))"

text \<open>
  Modelled from the spec: the helper \<^verbatim>\<open>write\<close> (\<^verbatim>\<open>utilities.h\<close>) is not part of the
  sources. It writes the bytes of the object and reports whether all of them were written.
\<close>

definition write_USHORT :: "ISave \<Rightarrow> USHORT \<Rightarrow> ISave \<times> bool" where
  "write_USHORT isave v =
     (let (isave, result, written) = ISave_Write (bytes_of_USHORT v) isave
      in (isave, result = IO_OK \<and> written = 2))"

text \<open>
  Modelled from the spec: \<^verbatim>\<open>MtlBase::Save\<close> belongs to the host. It writes the state of
  the base class, a sequence of bytes that the host determines, into the open chunk.
\<close>

definition MtlBase_Save :: "byte list \<Rightarrow> ISave \<Rightarrow> ISave \<times> IOResult" where
  "MtlBase_Save base isave = (let (isave, result, written) = ISave_Write base isave in (isave, result))"

text \<open>\<^verbatim>\<open>AppleseedGlassMtl::Save\<close>; \<open>base\<close> is the state of the base class.\<close>

definition Save :: "DataChunks \<Rightarrow> USHORT \<Rightarrow> byte list \<Rightarrow> ISave \<Rightarrow> ISave \<times> IOResult" where
  "Save K FileFormatVersion base isave =
     (let success = True;
          isave = BeginChunk (ChunkFileFormatVersion K) isave;
          (isave, ok) = write_USHORT isave FileFormatVersion;
          success = (success \<and> ok);
          isave = EndChunk isave;
          isave = BeginChunk (ChunkMtlBase K) isave;
          (isave, result) = MtlBase_Save base isave;
          success = (success \<and> result = IO_OK);
          isave = EndChunk isave
      in (isave, if success then IO_OK else IO_ERROR))"

subsection \<open>The stream that is read\<close>

text \<open>
  Modelled from the spec: the host's \<^verbatim>\<open>ILoad\<close> is not part of the sources. The stream is
  the list of the chunks still to be read. \<^verbatim>\<open>OpenChunk\<close> returns \<^verbatim>\<open>IO_END\<close> when there
  is none, and otherwise succeeds or fails as the device does; so does \<^verbatim>\<open>CloseChunk\<close>.
\<close>

record LoadChunk =
  lc_open_ok :: bool
  lc_id :: USHORT
  lc_data :: "byte list"
  lc_close_ok :: bool

definition io_result :: "bool \<Rightarrow> IOResult" where
  "io_result ok = (if ok then IO_OK else IO_ERROR)"

text \<open>
  Modelled from the spec: the helper \<^verbatim>\<open>read\<close> (\<^verbatim>\<open>utilities.h\<close>) is not part of the
  sources. It reads the bytes of the object from the open chunk and fails when the chunk
  has fewer.
\<close>

fun read_USHORT :: "byte list \<Rightarrow> IOResult \<times> USHORT option" where
  "read_USHORT (lo # hi # rest) = (IO_OK, Some (USHORT_of_bytes lo hi))"
| "read_USHORT bs = (IO_ERROR, None)"

text \<open>
  What \<open>Load\<close> did: the values it read into its local variable \<^verbatim>\<open>version\<close>, which the
  source does not use further, and the chunk contents it handed to \<^verbatim>\<open>MtlBase::Load\<close>,
  both in order.
\<close>

record LoadLog =
  versions_read :: "USHORT list"
  bases_loaded :: "byte list list"

definition empty_log :: LoadLog where
  "empty_log = \<lparr>versions_read = [], bases_loaded = []\<rparr>"

text \<open>
  \<^verbatim>\<open>AppleseedGlassMtl::Load\<close>. The loop runs once for each chunk of the stream, so it is a
  recursion on the list. \<^verbatim>\<open>MtlBase::Load\<close> belongs to the host: \<open>base_load\<close> gives its
  result on the contents of a chunk.
\<close>

fun Load ::
  "DataChunks \<Rightarrow> (byte list \<Rightarrow> IOResult) \<Rightarrow> LoadChunk list \<Rightarrow> LoadLog \<Rightarrow> IOResult \<times> LoadLog"
  where
  "Load K base_load [] lg = (IO_OK, lg)"
| "Load K base_load (c # cs) lg =
     (let result = io_result (lc_open_ok c)
      in if result \<noteq> IO_OK then (result, lg)
         else
           (let (result, lg) =
                  (if lc_id c = ChunkFileFormatVersion K then
                     (case read_USHORT (lc_data c) of
                        (r, Some version) \<Rightarrow>
                          (r, lg\<lparr>versions_read := versions_read lg @ [version]\<rparr>)
                      | (r, None) \<Rightarrow> (r, lg))
                   else if lc_id c = ChunkMtlBase K then
                     (base_load (lc_data c),
                      lg\<lparr>bases_loaded := bases_loaded lg @ [lc_data c]\<rparr>)
                   else (result, lg))
            in if result \<noteq> IO_OK then (result, lg)
               else
                 (let result = io_result (lc_close_ok c)
                  in if result \<noteq> IO_OK then (result, lg)
                     else Load K base_load cs lg)))"

text \<open>Reading back, on a device that does not fail, what was written.\<close>

definition read_back :: "StreamChunk list \<Rightarrow> LoadChunk list" where
  "read_back cs =
     map (\<lambda>c. \<lparr>lc_open_ok = True, lc_id = chunk_id c, lc_data = chunk_data c,
                lc_close_ok = True\<rparr>) cs"

text \<open>A chunk whose identifier \<open>Load\<close> knows, and the chunks of a stream that are left
  when those with other identifiers are taken out.\<close>

definition known_chunk :: "DataChunks \<Rightarrow> LoadChunk \<Rightarrow> bool" where
  "known_chunk K c = (lc_id c = ChunkFileFormatVersion K \<or> lc_id c = ChunkMtlBase K)"

definition known_chunks :: "DataChunks \<Rightarrow> LoadChunk list \<Rightarrow> LoadChunk list" where
  "known_chunks K cs = filter (known_chunk K) cs"

text \<open>A chunk that the device opens and closes without failure.\<close>

definition chunk_intact :: "LoadChunk \<Rightarrow> bool" where
  "chunk_intact c = (lc_open_ok c \<and> lc_close_ok c)"

text \<open>A base class whose load succeeds on every content.\<close>

definition base_loads :: "byte list \<Rightarrow> IOResult" where
  "base_loads bs = IO_OK"

text \<open>A chunk that \<open>Load\<close> gets through without a failure.\<close>

definition chunk_loads :: "DataChunks \<Rightarrow> (byte list \<Rightarrow> IOResult) \<Rightarrow> LoadChunk \<Rightarrow> bool" where
  "chunk_loads K base_load c =
     (lc_open_ok c \<and>
      (if lc_id c = ChunkFileFormatVersion K then 2 \<le> length (lc_data c)
       else if lc_id c = ChunkMtlBase K then base_load (lc_data c) = IO_OK
       else True) \<and>
      lc_close_ok c)"

section \<open>Properties of the scene helpers\<close>

lemma map_of_insert_param: "map_of (insert_param k v ps) = (map_of ps)(k \<mapsto> v)"
  by (simp add: insert_param_def update_conv')

lemma unique_from_append: "\<exists>j. unique_from names base i fuel = base @ string_of_nat j"
  by (induction fuel arbitrary: i) auto

lemma string_of_nat_nonempty: "string_of_nat n \<noteq> []"
  by (subst string_of_nat.simps) simp

lemma make_unique_name_nonempty: "make_unique_name names base \<noteq> []"
proof -
  obtain j where "unique_from names base 1 (length names) = base @ string_of_nat j"
    using unique_from_append by blast
  then show ?thesis
    by (simp add: make_unique_name_def string_of_nat_nonempty)
qed

lemma insert_texture_and_instance_None:
  "insert_texture_and_instance assembly None u time ps = (assembly, [])"
  by (simp add: insert_texture_and_instance_def)

lemma insert_texture_and_instance_Some:
  "snd (insert_texture_and_instance assembly (Some tm) u time ps) \<noteq> []"
  by (simp add: insert_texture_and_instance_def Let_def make_unique_name_nonempty)

lemma asm_le_refl: "asm_le a a"
  by (simp add: asm_le_def)

lemma asm_le_trans: "asm_le a b \<Longrightarrow> asm_le b c \<Longrightarrow> asm_le a c"
  by (auto simp: asm_le_def)

lemma instance_refers_mono:
  "asm_le a b \<Longrightarrow> instance_refers a n P \<Longrightarrow> instance_refers b n P"
  unfolding asm_le_def instance_refers_def list_ex_iff by blast

lemma asm_le_insert_texture_and_instance:
  "asm_le a (fst (insert_texture_and_instance a tm u t ps))"
  by (cases tm) (auto simp: insert_texture_and_instance_def Let_def asm_le_def)

lemma asm_le_insert_color: "asm_le a (insert_color a c n)"
  by (auto simp: insert_color_def asm_le_def)

lemma insert_texture_and_instance_source:
  "instance_refers (fst (insert_texture_and_instance a (Some tm) u t ps))
     (snd (insert_texture_and_instance a (Some tm) u t ps)) (\<lambda>e. tex_source e = tm)"
  by (simp add: insert_texture_and_instance_def Let_def instance_refers_def)

lemmas bsdf_stage_defs =
  bsdf_surface_transmittance_def bsdf_reflection_tint_def bsdf_refraction_tint_def
  bsdf_roughness_def bsdf_anisotropy_def bsdf_volume_transmittance_def

lemma bsdf_frames:
  "k \<noteq> ''surface_transmittance'' \<Longrightarrow>
   map_of (snd (bsdf_surface_transmittance s name time x)) k = map_of (snd x) k"
  "k \<noteq> ''reflection_tint'' \<Longrightarrow>
   map_of (snd (bsdf_reflection_tint s name time x)) k = map_of (snd x) k"
  "k \<noteq> ''refraction_tint'' \<Longrightarrow>
   map_of (snd (bsdf_refraction_tint s name time x)) k = map_of (snd x) k"
  "k \<noteq> ''roughness'' \<Longrightarrow> map_of (snd (bsdf_roughness s time x)) k = map_of (snd x) k"
  "k \<noteq> ''anisotropic'' \<Longrightarrow> map_of (snd (bsdf_anisotropy s time x)) k = map_of (snd x) k"
  "k \<noteq> ''volume_transmittance'' \<Longrightarrow>
   map_of (snd (bsdf_volume_transmittance s name time x)) k = map_of (snd x) k"
  by (simp_all add: bsdf_stage_defs Let_def split_beta map_of_insert_param)

lemma bsdf_stage_grows:
  "asm_le a (fst x) \<Longrightarrow> asm_le a (fst (bsdf_surface_transmittance s name time x))"
  "asm_le a (fst x) \<Longrightarrow> asm_le a (fst (bsdf_reflection_tint s name time x))"
  "asm_le a (fst x) \<Longrightarrow> asm_le a (fst (bsdf_refraction_tint s name time x))"
  "asm_le a (fst x) \<Longrightarrow> asm_le a (fst (bsdf_roughness s time x))"
  "asm_le a (fst x) \<Longrightarrow> asm_le a (fst (bsdf_anisotropy s time x))"
  "asm_le a (fst x) \<Longrightarrow> asm_le a (fst (bsdf_volume_transmittance s name time x))"
  by (auto simp: bsdf_stage_defs Let_def split_beta
      intro: asm_le_trans asm_le_insert_texture_and_instance
        asm_le_trans [OF asm_le_trans, OF _ asm_le_insert_texture_and_instance asm_le_insert_color])

lemma param_refers_mono:
  "asm_le a b \<Longrightarrow> param_refers a ps k P \<Longrightarrow> param_refers b ps k P"
  by (auto simp: param_refers_def split: option.splits param_value.splits
      intro: instance_refers_mono)

lemma lift_apsnd:
  "k \<noteq> k' \<Longrightarrow> param_refers (fst x) (snd x) k P \<Longrightarrow>
   param_refers (fst (apsnd (insert_param k' v) x)) (snd (apsnd (insert_param k' v) x)) k P"
  by (simp add: param_refers_def map_of_insert_param)

lemma lift_surface_transmittance:
  "k \<noteq> ''surface_transmittance'' \<Longrightarrow> param_refers (fst x) (snd x) k P \<Longrightarrow>
   param_refers (fst (bsdf_surface_transmittance s name time x))
     (snd (bsdf_surface_transmittance s name time x)) k P"
  using param_refers_mono [OF bsdf_stage_grows(1) [OF asm_le_refl]]
  by (fastforce simp: param_refers_def bsdf_frames(1))

lemma lift_reflection_tint:
  "k \<noteq> ''reflection_tint'' \<Longrightarrow> param_refers (fst x) (snd x) k P \<Longrightarrow>
   param_refers (fst (bsdf_reflection_tint s name time x))
     (snd (bsdf_reflection_tint s name time x)) k P"
  using param_refers_mono [OF bsdf_stage_grows(2) [OF asm_le_refl]]
  by (fastforce simp: param_refers_def bsdf_frames(2))

lemma lift_refraction_tint:
  "k \<noteq> ''refraction_tint'' \<Longrightarrow> param_refers (fst x) (snd x) k P \<Longrightarrow>
   param_refers (fst (bsdf_refraction_tint s name time x))
     (snd (bsdf_refraction_tint s name time x)) k P"
  using param_refers_mono [OF bsdf_stage_grows(3) [OF asm_le_refl]]
  by (fastforce simp: param_refers_def bsdf_frames(3))

lemma lift_roughness:
  "k \<noteq> ''roughness'' \<Longrightarrow> param_refers (fst x) (snd x) k P \<Longrightarrow>
   param_refers (fst (bsdf_roughness s time x)) (snd (bsdf_roughness s time x)) k P"
  using param_refers_mono [OF bsdf_stage_grows(4) [OF asm_le_refl]]
  by (fastforce simp: param_refers_def bsdf_frames(4))

lemma lift_anisotropy:
  "k \<noteq> ''anisotropic'' \<Longrightarrow> param_refers (fst x) (snd x) k P \<Longrightarrow>
   param_refers (fst (bsdf_anisotropy s time x)) (snd (bsdf_anisotropy s time x)) k P"
  using param_refers_mono [OF bsdf_stage_grows(5) [OF asm_le_refl]]
  by (fastforce simp: param_refers_def bsdf_frames(5))

lemma lift_volume_transmittance:
  "k \<noteq> ''volume_transmittance'' \<Longrightarrow> param_refers (fst x) (snd x) k P \<Longrightarrow>
   param_refers (fst (bsdf_volume_transmittance s name time x))
     (snd (bsdf_volume_transmittance s name time x)) k P"
  using param_refers_mono [OF bsdf_stage_grows(6) [OF asm_le_refl]]
  by (fastforce simp: param_refers_def bsdf_frames(6))

lemma bsdf_stage_None:
  "m_surface_color_texmap s = None \<Longrightarrow>
   map_of (snd (bsdf_surface_transmittance s name time x)) ''surface_transmittance'' =
     Some (PString (name @ ''_bsdf_surface_transmittance''))"
  "m_reflection_tint_texmap s = None \<Longrightarrow>
   map_of (snd (bsdf_reflection_tint s name time x)) ''reflection_tint'' =
     Some (PString (name @ ''_bsdf_reflection_tint''))"
  "m_refraction_tint_texmap s = None \<Longrightarrow>
   map_of (snd (bsdf_refraction_tint s name time x)) ''refraction_tint'' =
     Some (PString (name @ ''_bsdf_refraction_tint''))"
  "m_roughness_texmap s = None \<Longrightarrow>
   map_of (snd (bsdf_roughness s time x)) ''roughness'' = Some (PFloat (m_roughness s / 100))"
  "m_anisotropy_texmap s = None \<Longrightarrow>
   map_of (snd (bsdf_anisotropy s time x)) ''anisotropic'' = Some (PFloat (m_anisotropy s))"
  "m_volume_color_texmap s = None \<Longrightarrow>
   map_of (snd (bsdf_volume_transmittance s name time x)) ''volume_transmittance'' =
     Some (PString (name @ ''_bsdf_volume_transmittance''))"
  by (simp_all add: bsdf_stage_defs Let_def split_beta map_of_insert_param
      insert_texture_and_instance_None)

lemma bsdf_stage_Some:
  "m_surface_color_texmap s = Some tm \<Longrightarrow>
   param_refers (fst (bsdf_surface_transmittance s name time x))
     (snd (bsdf_surface_transmittance s name time x)) ''surface_transmittance''
     (\<lambda>e. tex_source e = tm)"
  "m_reflection_tint_texmap s = Some tm \<Longrightarrow>
   param_refers (fst (bsdf_reflection_tint s name time x))
     (snd (bsdf_reflection_tint s name time x)) ''reflection_tint'' (\<lambda>e. tex_source e = tm)"
  "m_refraction_tint_texmap s = Some tm \<Longrightarrow>
   param_refers (fst (bsdf_refraction_tint s name time x))
     (snd (bsdf_refraction_tint s name time x)) ''refraction_tint'' (\<lambda>e. tex_source e = tm)"
  "m_roughness_texmap s = Some tm \<Longrightarrow>
   param_refers (fst (bsdf_roughness s time x)) (snd (bsdf_roughness s time x)) ''roughness''
     (\<lambda>e. tex_source e = tm)"
  "m_anisotropy_texmap s = Some tm \<Longrightarrow>
   param_refers (fst (bsdf_anisotropy s time x)) (snd (bsdf_anisotropy s time x)) ''anisotropic''
     (\<lambda>e. tex_source e = tm)"
  "m_volume_color_texmap s = Some tm \<Longrightarrow>
   param_refers (fst (bsdf_volume_transmittance s name time x))
     (snd (bsdf_volume_transmittance s name time x)) ''volume_transmittance''
     (\<lambda>e. tex_source e = tm)"
  using insert_texture_and_instance_Some [of "fst x" tm True time "[]"]
    insert_texture_and_instance_source [of "fst x" tm True time "[]"]
  by (simp_all add: bsdf_stage_defs Let_def split_beta map_of_insert_param param_refers_def)

lemma builtin_bsdf_inserted:
  "bsdf_params (builtin_bsdf s assembly name time) =
     snd (builtin_bsdf_params s assembly name time)"
  by (cases "m_bump_texmap s")
    (simp_all add: builtin_bsdf_def create_builtin_material_def Let_def split_beta
      insert_texture_and_instance_def)

lemma builtin_assembly_grows:
  "asm_le (fst (builtin_bsdf_params s assembly name time))
     (fst (create_builtin_material s assembly name time))"
  by (cases "m_bump_texmap s")
    (auto simp: create_builtin_material_def Let_def split_beta
      insert_texture_and_instance_def asm_le_def)

lemma builtin_bsdf_params_None:
  assumes "slot_texmap s sl = None"
  shows "map_of (snd (builtin_bsdf_params s assembly name time)) (slot_bsdf_key sl) =
         Some (slot_builtin_constant s name sl)"
  using assms
  by (cases sl)
    (simp_all add: builtin_bsdf_params_def Let_def map_of_insert_param bsdf_frames
      bsdf_stage_None)

lemma builtin_bsdf_params_Some:
  assumes "slot_texmap s sl = Some tm"
  shows "param_refers (fst (builtin_bsdf_params s assembly name time))
           (snd (builtin_bsdf_params s assembly name time)) (slot_bsdf_key sl)
           (\<lambda>e. tex_source e = tm)"
proof (cases sl)
  case SlotSurfaceColor
  with assms show ?thesis
    unfolding builtin_bsdf_params_def Let_def
    by (simp only: slot_bsdf_key.simps slot_texmap.simps)
      ((rule lift_apsnd lift_reflection_tint lift_refraction_tint lift_roughness
          lift_anisotropy lift_volume_transmittance, simp)+,
        rule bsdf_stage_Some, simp)
next
  case SlotReflectionTint
  with assms show ?thesis
    unfolding builtin_bsdf_params_def Let_def
    by (simp only: slot_bsdf_key.simps slot_texmap.simps)
      ((rule lift_apsnd lift_surface_transmittance lift_refraction_tint lift_roughness
          lift_anisotropy lift_volume_transmittance, simp)+,
        rule bsdf_stage_Some, simp)
next
  case SlotRefractionTint
  with assms show ?thesis
    unfolding builtin_bsdf_params_def Let_def
    by (simp only: slot_bsdf_key.simps slot_texmap.simps)
      ((rule lift_apsnd lift_surface_transmittance lift_reflection_tint lift_roughness
          lift_anisotropy lift_volume_transmittance, simp)+,
        rule bsdf_stage_Some, simp)
next
  case SlotVolumeColor
  with assms show ?thesis
    unfolding builtin_bsdf_params_def Let_def
    by (simp only: slot_bsdf_key.simps slot_texmap.simps)
      ((rule lift_apsnd lift_surface_transmittance lift_reflection_tint lift_refraction_tint
          lift_roughness lift_anisotropy, simp)+,
        rule bsdf_stage_Some, simp)
next
  case SlotRoughness
  with assms show ?thesis
    unfolding builtin_bsdf_params_def Let_def
    by (simp only: slot_bsdf_key.simps slot_texmap.simps)
      ((rule lift_apsnd lift_surface_transmittance lift_reflection_tint lift_refraction_tint
          lift_anisotropy lift_volume_transmittance, simp)+,
        rule bsdf_stage_Some, simp)
next
  case SlotAnisotropy
  with assms show ?thesis
    unfolding builtin_bsdf_params_def Let_def
    by (simp only: slot_bsdf_key.simps slot_texmap.simps)
      ((rule lift_apsnd lift_surface_transmittance lift_reflection_tint lift_refraction_tint
          lift_roughness lift_volume_transmittance, simp)+,
        rule bsdf_stage_Some, simp)
qed

section \<open>Properties of the shader-graph compiler\<close>

lemma add_shader_proj:
  "sg_shaders (add_shader ty n l ps sg) =
     sg_shaders sg @ [\<lparr>sh_type = ty, sh_name = n, sh_layer = l, sh_params = ps\<rparr>]"
  "sg_connections (add_shader ty n l ps sg) = sg_connections sg"
  by (simp_all add: add_shader_def)

lemma add_connection_proj:
  "sg_shaders (add_connection sl sp dl dp sg) = sg_shaders sg"
  "sg_connections (add_connection sl sp dl dp sg) =
     sg_connections sg @ [\<lparr>src_layer = sl, src_param = sp, dst_layer = dl, dst_param = dp\<rparr>]"
  by (simp_all add: add_connection_def)

lemma connect_color_texture_proj:
  "sg_shaders (connect_color_texture sg n i tm c t) =
     sg_shaders sg @
     [\<lparr>sh_type = ''shader'', sh_name = ''color_adapter'', sh_layer = n @ ''_'' @ i,
       sh_params = insert_param ''input''
         (PExpr (case tm of Some x \<Rightarrow> OslTexmap x t | None \<Rightarrow> OslColor (to_color3f c))) []\<rparr>]"
  "sg_connections (connect_color_texture sg n i tm c t) =
     sg_connections sg @
     [\<lparr>src_layer = n @ ''_'' @ i, src_param = ''output'', dst_layer = n, dst_param = i\<rparr>]"
  by (simp_all add: connect_color_texture_def Let_def add_shader_proj add_connection_proj)

lemma connect_float_texture_proj:
  "sg_shaders (connect_float_texture sg n i tm x t) =
     sg_shaders sg @
     [\<lparr>sh_type = ''shader'', sh_name = ''float_adapter'', sh_layer = n @ ''_'' @ i,
       sh_params = insert_param ''input''
         (PExpr (case tm of Some y \<Rightarrow> OslTexmap y t | None \<Rightarrow> OslFloat x)) []\<rparr>]"
  "sg_connections (connect_float_texture sg n i tm x t) =
     sg_connections sg @
     [\<lparr>src_layer = n @ ''_'' @ i, src_param = ''output'', dst_layer = n, dst_param = i\<rparr>]"
  by (simp_all add: connect_float_texture_def Let_def add_shader_proj add_connection_proj)

lemma connect_bump_map_proj:
  "sg_shaders (connect_bump_map sg n ni ti (Some tm) a t) =
     sg_shaders sg @
     [\<lparr>sh_type = ''shader'', sh_name = ''bump_adapter'', sh_layer = n @ ''_bump_map'',
       sh_params = insert_param ''amount'' (PExpr (OslFloat a))
         (insert_param ''input'' (PExpr (OslTexmap tm t)) [])\<rparr>]"
  "sg_connections (connect_bump_map sg n ni ti (Some tm) a t) =
     sg_connections sg @
     [\<lparr>src_layer = n @ ''_bump_map'', src_param = ''output'', dst_layer = n, dst_param = ni\<rparr>]"
  by (simp_all add: connect_bump_map_def Let_def add_shader_proj add_connection_proj)

lemma connect_normal_map_proj:
  "sg_shaders (connect_normal_map sg n ni ti (Some tm) u a t) =
     sg_shaders sg @
     [\<lparr>sh_type = ''shader'', sh_name = ''normal_adapter'', sh_layer = n @ ''_normal_map'',
       sh_params = insert_param ''amount'' (PExpr (OslFloat a))
         (insert_param ''up_vector'' (PExpr (OslString (if u = 0 then ''y'' else ''z'')))
           (insert_param ''input'' (PExpr (OslTexmap tm t)) []))\<rparr>]"
  "sg_connections (connect_normal_map sg n ni ti (Some tm) u a t) =
     sg_connections sg @
     [\<lparr>src_layer = n @ ''_normal_map'', src_param = ''output'', dst_layer = n, dst_param = ni\<rparr>]"
  by (simp_all add: connect_normal_map_def Let_def add_shader_proj add_connection_proj)

lemmas osl_proj = add_shader_proj add_connection_proj connect_color_texture_proj
  connect_float_texture_proj connect_bump_map_proj connect_normal_map_proj

lemma osl_connections:
  "sg_connections (osl_shader_group s assembly name time) =
     [\<lparr>src_layer = name @ ''_SurfaceTransmittance'', src_param = ''output'',
       dst_layer = name, dst_param = ''SurfaceTransmittance''\<rparr>,
      \<lparr>src_layer = name @ ''_ReflectionTint'', src_param = ''output'',
       dst_layer = name, dst_param = ''ReflectionTint''\<rparr>,
      \<lparr>src_layer = name @ ''_RefractionTint'', src_param = ''output'',
       dst_layer = name, dst_param = ''RefractionTint''\<rparr>,
      \<lparr>src_layer = name @ ''_VolumeTransmittance'', src_param = ''output'',
       dst_layer = name, dst_param = ''VolumeTransmittance''\<rparr>,
      \<lparr>src_layer = name @ ''_Roughness'', src_param = ''output'',
       dst_layer = name, dst_param = ''Roughness''\<rparr>,
      \<lparr>src_layer = name @ ''_Anisotropic'', src_param = ''output'',
       dst_layer = name, dst_param = ''Anisotropic''\<rparr>] @
     (case m_bump_texmap s of
        None \<Rightarrow> []
      | Some tm \<Rightarrow>
          [\<lparr>src_layer = name @ (if m_bump_method s = 0 then ''_bump_map'' else ''_normal_map''),
            src_param = ''output'', dst_layer = name, dst_param = ''Normal''\<rparr>]) @
     [\<lparr>src_layer = name, src_param = ''ClosureOut'',
       dst_layer = name @ ''_closure2surface'', dst_param = ''in_input''\<rparr>]"
  by (cases "m_bump_texmap s")
    (simp_all add: osl_shader_group_def create_osl_material_def Let_def osl_proj
      ShaderGroupFactory_create_def)

text \<open>The parameters of the glass node and of the node that a bound bump texture adds.\<close>

lemma osl_shaders:
  "sg_shaders (osl_shader_group s assembly name time) =
     [\<lparr>sh_type = ''shader'', sh_name = ''color_adapter'',
       sh_layer = name @ ''_SurfaceTransmittance'',
       sh_params = insert_param ''input''
         (PExpr (case m_surface_color_texmap s of Some x \<Rightarrow> OslTexmap x time
                 | None \<Rightarrow> OslColor (to_color3f (m_surface_color s)))) []\<rparr>,
      \<lparr>sh_type = ''shader'', sh_name = ''color_adapter'',
       sh_layer = name @ ''_ReflectionTint'',
       sh_params = insert_param ''input''
         (PExpr (case m_reflection_tint_texmap s of Some x \<Rightarrow> OslTexmap x time
                 | None \<Rightarrow> OslColor (to_color3f (m_reflection_tint s)))) []\<rparr>,
      \<lparr>sh_type = ''shader'', sh_name = ''color_adapter'',
       sh_layer = name @ ''_RefractionTint'',
       sh_params = insert_param ''input''
         (PExpr (case m_refraction_tint_texmap s of Some x \<Rightarrow> OslTexmap x time
                 | None \<Rightarrow> OslColor (to_color3f (m_refraction_tint s)))) []\<rparr>,
      \<lparr>sh_type = ''shader'', sh_name = ''color_adapter'',
       sh_layer = name @ ''_VolumeTransmittance'',
       sh_params = insert_param ''input''
         (PExpr (case m_volume_color_texmap s of Some x \<Rightarrow> OslTexmap x time
                 | None \<Rightarrow> OslColor (to_color3f (m_volume_color s)))) []\<rparr>,
      \<lparr>sh_type = ''shader'', sh_name = ''float_adapter'',
       sh_layer = name @ ''_Roughness'',
       sh_params = insert_param ''input''
         (PExpr (case m_roughness_texmap s of Some x \<Rightarrow> OslTexmap x time
                 | None \<Rightarrow> OslFloat (m_roughness s / 100))) []\<rparr>,
      \<lparr>sh_type = ''shader'', sh_name = ''float_adapter'',
       sh_layer = name @ ''_Anisotropic'',
       sh_params = insert_param ''input''
         (PExpr (case m_anisotropy_texmap s of Some x \<Rightarrow> OslTexmap x time
                 | None \<Rightarrow> OslFloat (m_anisotropy s / 100))) []\<rparr>] @
     (case m_bump_texmap s of
        None \<Rightarrow> []
      | Some tm \<Rightarrow>
          [if m_bump_method s = 0 then
             \<lparr>sh_type = ''shader'', sh_name = ''bump_adapter'', sh_layer = name @ ''_bump_map'',
              sh_params = insert_param ''amount'' (PExpr (OslFloat (m_bump_amount s)))
                (insert_param ''input'' (PExpr (OslTexmap tm time)) [])\<rparr>
           else
             \<lparr>sh_type = ''shader'', sh_name = ''normal_adapter'',
              sh_layer = name @ ''_normal_map'',
              sh_params = insert_param ''amount'' (PExpr (OslFloat (m_bump_amount s)))
                (insert_param ''up_vector''
                  (PExpr (OslString (if m_bump_up_vector s = 0 then ''y'' else ''z'')))
                  (insert_param ''input'' (PExpr (OslTexmap tm time)) []))\<rparr>]) @
     [\<lparr>sh_type = ''surface'', sh_name = ''as_max_glass_material'', sh_layer = name,
       sh_params =
         insert_param ''Distribution'' (PExpr (OslString ''ggx''))
          (insert_param ''VolumeTransmittanceDistance'' (PExpr (OslFloat (m_scale s)))
           (insert_param ''Ior'' (PExpr (OslFloat (m_ior s)))
            (insert_param ''Anisotropic'' (PExpr (OslFloat (m_anisotropy s / 100)))
             (insert_param ''Roughness'' (PExpr (OslFloat (m_roughness s / 100)))
              (insert_param ''VolumeTransmittance''
                (PExpr (OslColor (to_color3f (m_volume_color s))))
               (insert_param ''RefractionTint''
                 (PExpr (OslColor (to_color3f (m_refraction_tint s))))
                (insert_param ''ReflectionTint''
                  (PExpr (OslColor (to_color3f (m_reflection_tint s))))
                 (insert_param ''SurfaceTransmittance''
                   (PExpr (OslColor (to_color3f (m_surface_color s)))) []))))))))\<rparr>,
      \<lparr>sh_type = ''shader'', sh_name = ''as_max_closure2surface'',
       sh_layer = name @ ''_closure2surface'', sh_params = []\<rparr>]"
  by (cases "m_bump_texmap s")
    (simp_all add: osl_shader_group_def create_osl_material_def Let_def osl_proj
      ShaderGroupFactory_create_def)

lemma osl_slot_pin:
  "pin_binding_of (osl_shader_group s assembly name time) name (slot_osl_pin sl) =
     Connected (name @ ''_'' @ slot_osl_pin sl) ''output''"
  by (cases sl) (simp_all add: pin_binding_of_def osl_connections)

lemma osl_slot_adapter:
  "pin_binding_of (osl_shader_group s assembly name time) (name @ ''_'' @ slot_osl_pin sl)
     ''input'' =
     Literal (PExpr (case slot_texmap s sl of
                       Some tm \<Rightarrow> OslTexmap tm time
                     | None \<Rightarrow> slot_osl_constant s sl))"
  by (cases sl; cases "m_bump_texmap s")
    (simp_all add: pin_binding_of_def node_param_def osl_connections osl_shaders
      map_of_insert_param cong: option.case_cong)

lemma osl_glass_literal:
  "node_param (osl_shader_group s assembly name time) name ''Roughness'' =
     Some (PExpr (OslFloat (m_roughness s / 100)))"
  "node_param (osl_shader_group s assembly name time) name ''Anisotropic'' =
     Some (PExpr (OslFloat (m_anisotropy s / 100)))"
  by (cases "m_bump_texmap s";
      simp add: node_param_def osl_shaders map_of_insert_param)+

lemma osl_no_bump:
  assumes "m_bump_texmap s = None"
  shows "list_all (\<lambda>sh. sh_name sh \<noteq> ''bump_adapter'' \<and> sh_name sh \<noteq> ''normal_adapter'')
           (sg_shaders (osl_shader_group s assembly name time))"
    and "pin_binding_of (osl_shader_group s assembly name time) name ''Normal'' = Unbound"
    and "pin_binding_of (osl_shader_group s assembly name time) name ''Tn'' = Unbound"
  using assms
  by (simp_all add: pin_binding_of_def node_param_def osl_connections osl_shaders
      map_of_insert_param)

section \<open>Properties of the fixed-function compiler\<close>

lemma insert_texture_and_instance_params:
  "instance_refers (fst (insert_texture_and_instance a (Some tm) u t ps))
     (snd (insert_texture_and_instance a (Some tm) u t ps))
     (\<lambda>e. tex_source e = tm \<and> tex_params e = ps)"
  by (simp add: insert_texture_and_instance_def Let_def instance_refers_def)

lemma instance_refers_weaken:
  "(\<And>e. P e \<Longrightarrow> Q e) \<Longrightarrow> instance_refers a n P \<Longrightarrow> instance_refers a n Q"
  unfolding instance_refers_def list_ex_iff by blast

lemma builtin_material_None:
  "m_bump_texmap s = None \<Longrightarrow>
   mat_params (snd (create_builtin_material s assembly name time)) =
     insert_param ''bsdf'' (PString (name @ ''_bsdf'')) []"
  by (simp add: create_builtin_material_def Let_def split_beta insert_texture_and_instance_None)

lemma builtin_material_Some:
  assumes "m_bump_texmap s = Some tm"
  shows "param_refers (fst (create_builtin_material s assembly name time))
           (mat_params (snd (create_builtin_material s assembly name time))) ''displacement_map''
           (\<lambda>e. tex_source e = tm \<and>
                map_of (tex_params e) ''color_space'' = Some (PString ''linear_rgb''))"
    and "map_of (mat_params (snd (create_builtin_material s assembly name time)))
           ''displacement_method'' =
         Some (PString (if m_bump_method s = 0 then ''bump'' else ''normal''))"
    and "map_of (mat_params (snd (create_builtin_material s assembly name time)))
           ''bump_amplitude'' =
         (if m_bump_method s = 0 then Some (PFloat (m_bump_amount s)) else None)"
    and "map_of (mat_params (snd (create_builtin_material s assembly name time)))
           ''bump_offset'' =
         (if m_bump_method s = 0 then Some (PFloat (1 / 2)) else None)"
    and "map_of (mat_params (snd (create_builtin_material s assembly name time)))
           ''normal_map_up'' =
         (if m_bump_method s = 1
          then Some (PString (if m_bump_up_vector s = 0 then ''y'' else ''z'')) else None)"
proof -
  define a1 where "a1 = (fst (builtin_bsdf_params s assembly name time))
    \<lparr>asm_bsdfs := asm_bsdfs (fst (builtin_bsdf_params s assembly name time)) @
       [\<lparr>bsdf_model = ''glass_bsdf'', bsdf_name = name @ ''_bsdf'',
         bsdf_params = snd (builtin_bsdf_params s assembly name time)\<rparr>]\<rparr>"
  define ps where "ps = insert_param ''color_space'' (PString ''linear_rgb'') []"
  obtain a2 inst where ins: "insert_texture_and_instance a1 (Some tm) True time ps = (a2, inst)"
    by (cases "insert_texture_and_instance a1 (Some tm) True time ps")
  have ne: "inst \<noteq> []"
    using insert_texture_and_instance_Some [of a1 tm True time ps] by (simp add: ins)
  have "instance_refers a2 inst (\<lambda>e. tex_source e = tm \<and> tex_params e = ps)"
    using insert_texture_and_instance_params [of a1 tm True time ps] by (simp add: ins)
  then have ref: "instance_refers a2 inst
      (\<lambda>e. tex_source e = tm \<and> map_of (tex_params e) ''color_space'' = Some (PString ''linear_rgb''))"
    by (rule instance_refers_weaken [rotated]) (simp add: ps_def map_of_insert_param)
  have res: "create_builtin_material s assembly name time =
     (a2,
      \<lparr>mat_model = ''generic_material'', mat_name = name,
       mat_params =
         (let material_params = insert_param ''bsdf'' (PString (name @ ''_bsdf'')) [];
              material_params =
                insert_param ''displacement_method''
                  (PString (if m_bump_method s = 0 then ''bump'' else ''normal'')) material_params;
              material_params = insert_param ''displacement_map'' (PString inst) material_params
          in if m_bump_method s = 0 then
               insert_param ''bump_offset'' (PFloat (1 / 2))
                 (insert_param ''bump_amplitude'' (PFloat (m_bump_amount s)) material_params)
             else if m_bump_method s = 1 then
               insert_param ''normal_map_up''
                 (PString (if m_bump_up_vector s = 0 then ''y'' else ''z'')) material_params
             else material_params)\<rparr>)"
    using ins ne assms
    by (simp add: create_builtin_material_def Let_def split_beta a1_def ps_def)
  show "param_refers (fst (create_builtin_material s assembly name time))
           (mat_params (snd (create_builtin_material s assembly name time))) ''displacement_map''
           (\<lambda>e. tex_source e = tm \<and>
                map_of (tex_params e) ''color_space'' = Some (PString ''linear_rgb''))"
    using ref by (simp add: res Let_def param_refers_def map_of_insert_param)
  show "map_of (mat_params (snd (create_builtin_material s assembly name time)))
           ''displacement_method'' =
         Some (PString (if m_bump_method s = 0 then ''bump'' else ''normal''))"
    by (simp add: res Let_def map_of_insert_param)
  show "map_of (mat_params (snd (create_builtin_material s assembly name time)))
           ''bump_amplitude'' =
         (if m_bump_method s = 0 then Some (PFloat (m_bump_amount s)) else None)"
    by (simp add: res Let_def map_of_insert_param)
  show "map_of (mat_params (snd (create_builtin_material s assembly name time)))
           ''bump_offset'' =
         (if m_bump_method s = 0 then Some (PFloat (1 / 2)) else None)"
    by (simp add: res Let_def map_of_insert_param)
  show "map_of (mat_params (snd (create_builtin_material s assembly name time)))
           ''normal_map_up'' =
         (if m_bump_method s = 1
          then Some (PString (if m_bump_up_vector s = 0 then ''y'' else ''z'')) else None)"
    by (simp add: res Let_def map_of_insert_param)
qed

lemma bsdf_stage_color:
  "m_surface_color_texmap s = None \<Longrightarrow>
   (name @ ''_bsdf_surface_transmittance'', to_color3f (m_surface_color s))
     \<in> set (asm_colors (fst (bsdf_surface_transmittance s name time x)))"
  "m_reflection_tint_texmap s = None \<Longrightarrow>
   (name @ ''_bsdf_reflection_tint'', to_color3f (m_reflection_tint s))
     \<in> set (asm_colors (fst (bsdf_reflection_tint s name time x)))"
  "m_refraction_tint_texmap s = None \<Longrightarrow>
   (name @ ''_bsdf_refraction_tint'', to_color3f (m_refraction_tint s))
     \<in> set (asm_colors (fst (bsdf_refraction_tint s name time x)))"
  "m_volume_color_texmap s = None \<Longrightarrow>
   (name @ ''_bsdf_volume_transmittance'', to_color3f (m_volume_color s))
     \<in> set (asm_colors (fst (bsdf_volume_transmittance s name time x)))"
  by (simp_all add: bsdf_stage_defs Let_def split_beta insert_texture_and_instance_None
      insert_color_def)

lemma asm_le_colors: "asm_le a b \<Longrightarrow> c \<in> set (asm_colors a) \<Longrightarrow> c \<in> set (asm_colors b)"
  by (auto simp: asm_le_def)

lemma colors_lift:
  "c \<in> set (asm_colors (fst x)) \<Longrightarrow>
   c \<in> set (asm_colors (fst (bsdf_surface_transmittance s name time x)))"
  "c \<in> set (asm_colors (fst x)) \<Longrightarrow>
   c \<in> set (asm_colors (fst (bsdf_reflection_tint s name time x)))"
  "c \<in> set (asm_colors (fst x)) \<Longrightarrow>
   c \<in> set (asm_colors (fst (bsdf_refraction_tint s name time x)))"
  "c \<in> set (asm_colors (fst x)) \<Longrightarrow> c \<in> set (asm_colors (fst (bsdf_roughness s time x)))"
  "c \<in> set (asm_colors (fst x)) \<Longrightarrow> c \<in> set (asm_colors (fst (bsdf_anisotropy s time x)))"
  "c \<in> set (asm_colors (fst x)) \<Longrightarrow>
   c \<in> set (asm_colors (fst (bsdf_volume_transmittance s name time x)))"
  "c \<in> set (asm_colors (fst x)) \<Longrightarrow> c \<in> set (asm_colors (fst (apsnd f x)))"
  by (simp_all add: asm_le_colors [OF bsdf_stage_grows(1) [OF asm_le_refl]]
      asm_le_colors [OF bsdf_stage_grows(2) [OF asm_le_refl]]
      asm_le_colors [OF bsdf_stage_grows(3) [OF asm_le_refl]]
      asm_le_colors [OF bsdf_stage_grows(4) [OF asm_le_refl]]
      asm_le_colors [OF bsdf_stage_grows(5) [OF asm_le_refl]]
      asm_le_colors [OF bsdf_stage_grows(6) [OF asm_le_refl]])

lemma builtin_bsdf_params_color:
  assumes "slot_texmap s sl = None"
  shows "case slot_color_entity s name sl of
           Some ce \<Rightarrow> ce \<in> set (asm_colors (fst (builtin_bsdf_params s assembly name time)))
         | None \<Rightarrow> True"
proof (cases sl)
  case SlotSurfaceColor
  with assms show ?thesis
    unfolding builtin_bsdf_params_def Let_def
    by (simp only: slot_color_entity.simps slot_texmap.simps option.case)
      ((rule colors_lift(2-7))+, rule bsdf_stage_color, simp)
next
  case SlotReflectionTint
  with assms show ?thesis
    unfolding builtin_bsdf_params_def Let_def
    by (simp only: slot_color_entity.simps slot_texmap.simps option.case)
      ((rule colors_lift(1) colors_lift(3-7))+, rule bsdf_stage_color, simp)
next
  case SlotRefractionTint
  with assms show ?thesis
    unfolding builtin_bsdf_params_def Let_def
    by (simp only: slot_color_entity.simps slot_texmap.simps option.case)
      ((rule colors_lift(1-2) colors_lift(4-7))+, rule bsdf_stage_color, simp)
next
  case SlotVolumeColor
  with assms show ?thesis
    unfolding builtin_bsdf_params_def Let_def
    by (simp only: slot_color_entity.simps slot_texmap.simps option.case)
      ((rule colors_lift(1-5) colors_lift(7))+, rule bsdf_stage_color, simp)
qed simp_all

lemma builtin_colors_grow:
  "c \<in> set (asm_colors (fst (builtin_bsdf_params s assembly name time))) \<Longrightarrow>
   c \<in> set (asm_colors (fst (create_builtin_material s assembly name time)))"
  by (rule asm_le_colors [OF builtin_assembly_grows])

section \<open>The claims about the two compilers\<close>

text \<open>
  C2. For every snapshot with no roughness texture bound, both compilers present the
  stored roughness divided by 100: the fixed-function compiler stores it as the parameter
  \<open>roughness\<close> of the BSDF; the shader-graph compiler gives it to the glass node as the
  literal \<open>Roughness\<close> and to the adapter wired into that pin as its input. A stored
  roughness of 20 is presented as 1/5, that is 0.20.
\<close>

theorem roughness_scaled:
  assumes "m_roughness_texmap s = None"
  shows "map_of (bsdf_params (builtin_bsdf s assembly name time)) ''roughness'' =
           Some (PFloat (m_roughness s / 100)) \<and>
         node_param (osl_shader_group s assembly name time) name ''Roughness'' =
           Some (PExpr (OslFloat (m_roughness s / 100))) \<and>
         pin_binding_of (osl_shader_group s assembly name time) name ''Roughness'' =
           Connected (name @ ''_Roughness'') ''output'' \<and>
         pin_binding_of (osl_shader_group s assembly name time) (name @ ''_Roughness'') ''input'' =
           Literal (PExpr (OslFloat (m_roughness s / 100)))"
  using assms builtin_bsdf_params_None [where s = s and sl = SlotRoughness and assembly = assembly and name = name and time = time]
    osl_slot_pin [where s = s and sl = SlotRoughness and assembly = assembly and name = name and time = time]
    osl_slot_adapter [where s = s and sl = SlotRoughness and assembly = assembly and name = name and time = time]
  by (simp add: builtin_bsdf_inserted osl_glass_literal)

theorem roughness_scaled_witness:
  "m_roughness_texmap ((new_AppleseedGlassMtl default_pblock)\<lparr>m_roughness := 20\<rparr>) = None \<and>
   map_of (bsdf_params (builtin_bsdf ((new_AppleseedGlassMtl default_pblock)\<lparr>m_roughness := 20\<rparr>)
     empty_assembly ''glass'' 0)) ''roughness'' = Some (PFloat (1 / 5)) \<and>
   node_param (osl_shader_group ((new_AppleseedGlassMtl default_pblock)\<lparr>m_roughness := 20\<rparr>)
     empty_assembly ''glass'' 0) ''glass'' ''Roughness'' = Some (PExpr (OslFloat (1 / 5))) \<and>
   pin_binding_of (osl_shader_group ((new_AppleseedGlassMtl default_pblock)\<lparr>m_roughness := 20\<rparr>)
     empty_assembly ''glass'' 0) ''glass_Roughness'' ''input'' = Literal (PExpr (OslFloat (1 / 5)))"
proof -
  have h: "m_roughness_texmap ((new_AppleseedGlassMtl default_pblock)\<lparr>m_roughness := 20\<rparr>) = None"
    by (simp add: new_AppleseedGlassMtl_def)
  have v: "m_roughness ((new_AppleseedGlassMtl default_pblock)\<lparr>m_roughness := 20\<rparr>) / 100 = 1 / 5"
    by simp
  from h roughness_scaled [OF h, where assembly = empty_assembly and name = "''glass''" and time = 0] show ?thesis
    unfolding v by simp
qed

text \<open>
  C1. The anisotropy that the two compilers hand over, for the material with its default
  parameters and an anisotropy of 1, no texture bound: the shader-graph compiler hands
  over 1/100, the fixed-function compiler hands over 1, not 1/100.
\<close>

theorem anisotropy_not_scaled_by_create_builtin_material:
  "map_of (bsdf_params (builtin_bsdf ((new_AppleseedGlassMtl default_pblock)\<lparr>m_anisotropy := 1\<rparr>)
     empty_assembly ''glass'' 0)) ''anisotropic'' = Some (PFloat 1) \<and>
   map_of (bsdf_params (builtin_bsdf ((new_AppleseedGlassMtl default_pblock)\<lparr>m_anisotropy := 1\<rparr>)
     empty_assembly ''glass'' 0)) ''anisotropic'' \<noteq> Some (PFloat (1 / 100)) \<and>
   node_param (osl_shader_group ((new_AppleseedGlassMtl default_pblock)\<lparr>m_anisotropy := 1\<rparr>)
     empty_assembly ''glass'' 0) ''glass'' ''Anisotropic'' = Some (PExpr (OslFloat (1 / 100))) \<and>
   pin_binding_of (osl_shader_group ((new_AppleseedGlassMtl default_pblock)\<lparr>m_anisotropy := 1\<rparr>)
     empty_assembly ''glass'' 0) ''glass_Anisotropic'' ''input'' =
     Literal (PExpr (OslFloat (1 / 100)))"
proof -
  let ?s = "(new_AppleseedGlassMtl default_pblock)\<lparr>m_anisotropy := 1\<rparr>"
  have h: "slot_texmap ?s SlotAnisotropy = None"
    by (simp add: new_AppleseedGlassMtl_def)
  have "map_of (bsdf_params (builtin_bsdf ?s empty_assembly ''glass'' 0)) ''anisotropic'' =
        Some (PFloat 1)"
    using builtin_bsdf_params_None [OF h, where assembly = empty_assembly and name = "''glass''" and time = 0]
    by (simp add: builtin_bsdf_inserted)
  moreover have "node_param (osl_shader_group ?s empty_assembly ''glass'' 0) ''glass''
      ''Anisotropic'' = Some (PExpr (OslFloat (1 / 100)))"
    by (simp add: osl_glass_literal)
  moreover have "pin_binding_of (osl_shader_group ?s empty_assembly ''glass'' 0)
      ''glass_Anisotropic'' ''input'' = Literal (PExpr (OslFloat (1 / 100)))"
    using osl_slot_adapter [where s = ?s and assembly = empty_assembly and name = "''glass''" and time = 0 and sl = SlotAnisotropy] h
    by simp
  ultimately show ?thesis
    by simp
qed

text \<open>
  C3. For each of the six input slots: with a texture bound, the BSDF parameter of the
  fixed-function compiler names a texture instance of the scene whose texture is the bound
  one, and the pin of the glass node in the shader graph is fed by the slot's adapter, whose
  input is the bound texture; this holds whatever the constant of the slot is. With no
  texture bound, each compiler binds the constant (the fixed-function compiler after
  inserting the colour entity that it names). Both compilers are total functions: there
  is no error result.
\<close>

theorem texture_takes_precedence:
  "case slot_texmap s sl of
     Some tm \<Rightarrow>
       param_refers (fst (create_builtin_material s assembly name time))
         (bsdf_params (builtin_bsdf s assembly name time)) (slot_bsdf_key sl)
         (\<lambda>e. tex_source e = tm) \<and>
       pin_binding_of (osl_shader_group s assembly name time) name (slot_osl_pin sl) =
         Connected (name @ ''_'' @ slot_osl_pin sl) ''output'' \<and>
       pin_binding_of (osl_shader_group s assembly name time) (name @ ''_'' @ slot_osl_pin sl)
         ''input'' = Literal (PExpr (OslTexmap tm time))
   | None \<Rightarrow>
       map_of (bsdf_params (builtin_bsdf s assembly name time)) (slot_bsdf_key sl) =
         Some (slot_builtin_constant s name sl) \<and>
       (case slot_color_entity s name sl of
          Some ce \<Rightarrow> ce \<in> set (asm_colors (fst (create_builtin_material s assembly name time)))
        | None \<Rightarrow> True) \<and>
       pin_binding_of (osl_shader_group s assembly name time) name (slot_osl_pin sl) =
         Connected (name @ ''_'' @ slot_osl_pin sl) ''output'' \<and>
       pin_binding_of (osl_shader_group s assembly name time) (name @ ''_'' @ slot_osl_pin sl)
         ''input'' = Literal (PExpr (slot_osl_constant s sl))"
proof (cases "slot_texmap s sl")
  case None
  have "case slot_color_entity s name sl of
          Some ce \<Rightarrow> ce \<in> set (asm_colors (fst (create_builtin_material s assembly name time)))
        | None \<Rightarrow> True"
    using builtin_bsdf_params_color [OF None, where name = name and assembly = assembly and time = time]
    by (auto split: option.splits intro: builtin_colors_grow)
  with None show ?thesis
    using osl_slot_pin [where s = s and sl = sl and assembly = assembly and name = name
        and time = time]
      osl_slot_adapter [where s = s and sl = sl and assembly = assembly and name = name
        and time = time]
    by (simp add: builtin_bsdf_inserted builtin_bsdf_params_None)
next
  case (Some tm)
  have "param_refers (fst (create_builtin_material s assembly name time))
         (bsdf_params (builtin_bsdf s assembly name time)) (slot_bsdf_key sl)
         (\<lambda>e. tex_source e = tm)"
    unfolding builtin_bsdf_inserted
    by (rule param_refers_mono [OF builtin_assembly_grows builtin_bsdf_params_Some [OF Some]])
  with Some show ?thesis
    using osl_slot_pin [where s = s and sl = sl and assembly = assembly and name = name
        and time = time]
      osl_slot_adapter [where s = s and sl = sl and assembly = assembly and name = name
        and time = time]
    by simp
qed

theorem texture_takes_precedence_witness:
  "param_refers
     (fst (create_builtin_material
            ((new_AppleseedGlassMtl default_pblock)\<lparr>m_roughness_texmap := Some 3\<rparr>)
            empty_assembly ''glass'' 0))
     (bsdf_params (builtin_bsdf
            ((new_AppleseedGlassMtl default_pblock)\<lparr>m_roughness_texmap := Some 3\<rparr>)
            empty_assembly ''glass'' 0))
     ''roughness'' (\<lambda>e. tex_source e = 3) \<and>
   pin_binding_of (osl_shader_group
            ((new_AppleseedGlassMtl default_pblock)\<lparr>m_roughness_texmap := Some 3\<rparr>)
            empty_assembly ''glass'' 0) ''glass_Roughness'' ''input'' =
     Literal (PExpr (OslTexmap 3 0)) \<and>
   map_of (bsdf_params (builtin_bsdf (new_AppleseedGlassMtl default_pblock)
            empty_assembly ''glass'' 0)) ''surface_transmittance'' =
     Some (PString ''glass_bsdf_surface_transmittance'') \<and>
   (''glass_bsdf_surface_transmittance'', Color3f 1 1 1) \<in>
     set (asm_colors (fst (create_builtin_material (new_AppleseedGlassMtl default_pblock)
            empty_assembly ''glass'' 0))) \<and>
   pin_binding_of (osl_shader_group (new_AppleseedGlassMtl default_pblock)
            empty_assembly ''glass'' 0) ''glass_SurfaceTransmittance'' ''input'' =
     Literal (PExpr (OslColor (Color3f 1 1 1)))"
proof -
  have h1: "slot_texmap ((new_AppleseedGlassMtl default_pblock)\<lparr>m_roughness_texmap := Some 3\<rparr>)
      SlotRoughness = Some 3"
    by simp
  have h2: "slot_texmap (new_AppleseedGlassMtl default_pblock) SlotSurfaceColor = None"
    by (simp add: new_AppleseedGlassMtl_def)
  have c: "to_color3f (m_surface_color (new_AppleseedGlassMtl default_pblock)) = Color3f 1 1 1"
    by (simp add: new_AppleseedGlassMtl_def)
  from texture_takes_precedence
         [where s = "(new_AppleseedGlassMtl default_pblock)\<lparr>m_roughness_texmap := Some 3\<rparr>"
           and sl = SlotRoughness and assembly = empty_assembly and name = "''glass''"
           and time = 0]
       texture_takes_precedence
         [where s = "new_AppleseedGlassMtl default_pblock" and sl = SlotSurfaceColor
           and assembly = empty_assembly and name = "''glass''" and time = 0]
  show ?thesis
    unfolding h1 h2 by (simp add: c)
qed

text \<open>
  C4. For every snapshot with no bump texture, neither compiler emits displacement wiring:
  the shader group has no bump adapter and no normal adapter node and nothing is bound to
  the pin \<open>Normal\<close> of the glass node; the parameter array of the fixed-function material
  has none of \<open>displacement_method\<close>, \<open>displacement_map\<close>, \<open>bump_amplitude\<close>,
  \<open>bump_offset\<close>, \<open>normal_map_up\<close>.
\<close>

theorem no_bump_texmap_no_displacement:
  assumes "m_bump_texmap s = None"
  shows "list_all (\<lambda>sh. sh_name sh \<noteq> ''bump_adapter'' \<and> sh_name sh \<noteq> ''normal_adapter'')
           (sg_shaders (osl_shader_group s assembly name time)) \<and>
         pin_binding_of (osl_shader_group s assembly name time) name ''Normal'' = Unbound \<and>
         list_all
           (\<lambda>k. map_of (mat_params (snd (create_builtin_material s assembly name time))) k = None)
           [''displacement_method'', ''displacement_map'', ''bump_amplitude'', ''bump_offset'',
            ''normal_map_up'']"
  using osl_no_bump [OF assms]
  by (simp add: builtin_material_None [OF assms] map_of_insert_param)

theorem no_bump_texmap_no_displacement_witness:
  "m_bump_texmap (new_AppleseedGlassMtl default_pblock) = None \<and>
   list_all (\<lambda>sh. sh_name sh \<noteq> ''bump_adapter'' \<and> sh_name sh \<noteq> ''normal_adapter'')
     (sg_shaders (osl_shader_group (new_AppleseedGlassMtl default_pblock) empty_assembly
        ''glass'' 0)) \<and>
   pin_binding_of (osl_shader_group (new_AppleseedGlassMtl default_pblock) empty_assembly
        ''glass'' 0) ''glass'' ''Normal'' = Unbound \<and>
   list_all
     (\<lambda>k. map_of (mat_params (snd (create_builtin_material
              (new_AppleseedGlassMtl default_pblock) empty_assembly ''glass'' 0))) k = None)
     [''displacement_method'', ''displacement_map'', ''bump_amplitude'', ''bump_offset'',
      ''normal_map_up'']"
proof -
  have h: "m_bump_texmap (new_AppleseedGlassMtl default_pblock) = None"
    by (simp add: new_AppleseedGlassMtl_def)
  from h no_bump_texmap_no_displacement [OF h, where assembly = empty_assembly and name = "''glass''" and time = 0] show ?thesis
    by simp
qed

text \<open>
  C5. In the fixed-function compiler, with a bump texture bound: \<open>displacement_map\<close> names
  an instance of the bound texture, instantiated with the colour space \<open>linear_rgb\<close>;
  \<open>displacement_method\<close> is \<open>bump\<close> for the bump method 0 and \<open>normal\<close> otherwise; in
  bump mode the material has \<open>bump_amplitude\<close>, the bump amount, and \<open>bump_offset\<close>, 1/2,
  and no \<open>normal_map_up\<close>; in normal mode (method 1) it has \<open>normal_map_up\<close>, \<open>y\<close> for the
  up vector 0 and \<open>z\<close> otherwise, and neither \<open>bump_amplitude\<close> nor \<open>bump_offset\<close>.
\<close>

theorem builtin_displacement:
  assumes "m_bump_texmap s = Some tm"
  shows "param_refers (fst (create_builtin_material s assembly name time))
           (mat_params (snd (create_builtin_material s assembly name time))) ''displacement_map''
           (\<lambda>e. tex_source e = tm \<and>
                map_of (tex_params e) ''color_space'' = Some (PString ''linear_rgb'')) \<and>
         map_of (mat_params (snd (create_builtin_material s assembly name time)))
           ''displacement_method'' =
           Some (PString (if m_bump_method s = 0 then ''bump'' else ''normal'')) \<and>
         map_of (mat_params (snd (create_builtin_material s assembly name time)))
           ''bump_amplitude'' =
           (if m_bump_method s = 0 then Some (PFloat (m_bump_amount s)) else None) \<and>
         map_of (mat_params (snd (create_builtin_material s assembly name time)))
           ''bump_offset'' =
           (if m_bump_method s = 0 then Some (PFloat (1 / 2)) else None) \<and>
         map_of (mat_params (snd (create_builtin_material s assembly name time)))
           ''normal_map_up'' =
           (if m_bump_method s = 1
            then Some (PString (if m_bump_up_vector s = 0 then ''y'' else ''z'')) else None)"
  using builtin_material_Some [OF assms, where assembly = assembly and name = name and time = time] by simp

theorem builtin_displacement_witness:
  "m_bump_texmap ((new_AppleseedGlassMtl default_pblock)
     \<lparr>m_bump_texmap := Some 7, m_bump_amount := 50\<rparr>) = Some 7 \<and>
   map_of (mat_params (snd (create_builtin_material
     ((new_AppleseedGlassMtl default_pblock)\<lparr>m_bump_texmap := Some 7, m_bump_amount := 50\<rparr>)
     empty_assembly ''glass'' 0))) ''displacement_method'' = Some (PString ''bump'') \<and>
   map_of (mat_params (snd (create_builtin_material
     ((new_AppleseedGlassMtl default_pblock)\<lparr>m_bump_texmap := Some 7, m_bump_amount := 50\<rparr>)
     empty_assembly ''glass'' 0))) ''bump_amplitude'' = Some (PFloat 50) \<and>
   map_of (mat_params (snd (create_builtin_material
     ((new_AppleseedGlassMtl default_pblock)\<lparr>m_bump_texmap := Some 7, m_bump_amount := 50\<rparr>)
     empty_assembly ''glass'' 0))) ''bump_offset'' = Some (PFloat (1 / 2)) \<and>
   map_of (mat_params (snd (create_builtin_material
     ((new_AppleseedGlassMtl default_pblock)\<lparr>m_bump_texmap := Some 7, m_bump_amount := 50\<rparr>)
     empty_assembly ''glass'' 0))) ''normal_map_up'' = None \<and>
   map_of (mat_params (snd (create_builtin_material
     ((new_AppleseedGlassMtl default_pblock)
        \<lparr>m_bump_method := 1, m_bump_texmap := Some 7, m_bump_up_vector := 0\<rparr>)
     empty_assembly ''glass'' 0))) ''displacement_method'' = Some (PString ''normal'') \<and>
   map_of (mat_params (snd (create_builtin_material
     ((new_AppleseedGlassMtl default_pblock)
        \<lparr>m_bump_method := 1, m_bump_texmap := Some 7, m_bump_up_vector := 0\<rparr>)
     empty_assembly ''glass'' 0))) ''normal_map_up'' = Some (PString ''y'') \<and>
   map_of (mat_params (snd (create_builtin_material
     ((new_AppleseedGlassMtl default_pblock)
        \<lparr>m_bump_method := 1, m_bump_texmap := Some 7, m_bump_up_vector := 0\<rparr>)
     empty_assembly ''glass'' 0))) ''bump_amplitude'' = None"
proof -
  let ?b = "(new_AppleseedGlassMtl default_pblock)\<lparr>m_bump_texmap := Some 7, m_bump_amount := 50\<rparr>"
  let ?n = "(new_AppleseedGlassMtl default_pblock)
        \<lparr>m_bump_method := 1, m_bump_texmap := Some 7, m_bump_up_vector := 0\<rparr>"
  have hb: "m_bump_texmap ?b = Some 7" and hn: "m_bump_texmap ?n = Some 7"
    by simp_all
  have mb: "m_bump_method ?b = 0" "m_bump_amount ?b = 50"
    and mn: "m_bump_method ?n = 1" "m_bump_up_vector ?n = 0"
    by (simp_all add: new_AppleseedGlassMtl_def)
  from hb builtin_displacement [OF hb, where assembly = empty_assembly and name = "''glass''" and time = 0]
    builtin_displacement [OF hn, where assembly = empty_assembly and name = "''glass''" and time = 0]
  show ?thesis
    unfolding mb mn by simp
qed

section \<open>Properties of the cache\<close>

lemma InInterval_ivl_and:
  "InInterval (ivl_and i j) t \<longleftrightarrow> InInterval i t \<and> InInterval j t"
  by (auto simp: InInterval_def ivl_and_def Empty_def NEVER_def)

lemma InInterval_FOREVER:
  "InInterval FOREVER t \<longleftrightarrow> t \<noteq> TIME_NegInfinity \<and> TIME_NegInfinity \<le> t \<and> t \<le> TIME_PosInfinity"
  by (simp add: InInterval_def FOREVER_def)

lemma Update_hit:
  "InInterval (m_params_validity s) t \<Longrightarrow>
   Update t valid s = (s, ivl_and valid (m_params_validity s), [])"
  by (simp add: Update_def)

lemma Update_miss_validity:
  assumes "\<not> InInterval (m_params_validity s) t"
  shows "InInterval (m_params_validity (fst (Update t valid s))) t \<longleftrightarrow>
         InInterval FOREVER t \<and> intervals_contain (m_pblock s) t"
  using assms
  by (auto simp: Update_def Let_def GetValue_color_def GetValue_float_def GetValue_int_def
      GetValue_texmap_def InInterval_ivl_and intervals_contain_def color_params_def
      float_params_def int_params_def texmap_params_def)

lemma not_InInterval_TIME_NegInfinity: "\<not> InInterval i TIME_NegInfinity"
  by (simp add: InInterval_def)

lemma Update_miss_messages:
  "\<not> InInterval (m_params_validity s) t \<Longrightarrow> snd (snd (Update t valid s)) = [REFMSG_CHANGE]"
  by (simp add: Update_def Let_def split_beta)

lemma ivl_and_FOREVER: "ivl_and FOREVER FOREVER = FOREVER"
  by (simp add: ivl_and_def FOREVER_def Empty_def TIME_NegInfinity_def TIME_PosInfinity_def)

lemma Update_default_validity:
  "\<not> InInterval (m_params_validity (new_AppleseedGlassMtl default_pblock)) t \<Longrightarrow>
   m_params_validity (fst (Update t valid (new_AppleseedGlassMtl default_pblock))) = FOREVER"
  by (simp add: Update_def Let_def GetValue_color_def GetValue_float_def GetValue_int_def
      GetValue_texmap_def new_AppleseedGlassMtl_def default_pblock_def ivl_and_FOREVER)

text \<open>
  C6, as the claim states it, fails at the time \<open>TIME_NegInfinity\<close>. For the material as
  constructed, with the default parameter block: after \<open>Update\<close> at that time the cached
  interval is \<open>FOREVER\<close>, which is not empty, and nothing has changed a parameter; the
  second \<open>Update\<close> at the same time sends \<^verbatim>\<open>REFMSG_CHANGE\<close> to the dependents again,
  because no interval contains \<open>TIME_NegInfinity\<close>.
\<close>

theorem Update_at_TIME_NegInfinity_signals_again:
  "m_params_validity
     (fst (Update TIME_NegInfinity FOREVER (new_AppleseedGlassMtl default_pblock))) = FOREVER \<and>
   \<not> Empty FOREVER \<and>
   snd (snd (Update TIME_NegInfinity FOREVER
               (fst (Update TIME_NegInfinity FOREVER (new_AppleseedGlassMtl default_pblock))))) =
     [REFMSG_CHANGE]"
proof (intro conjI)
  show "m_params_validity
     (fst (Update TIME_NegInfinity FOREVER (new_AppleseedGlassMtl default_pblock))) = FOREVER"
    by (rule Update_default_validity [OF not_InInterval_TIME_NegInfinity])
  show "\<not> Empty FOREVER"
    by (simp add: Empty_def FOREVER_def TIME_NegInfinity_def TIME_PosInfinity_def)
  show "snd (snd (Update TIME_NegInfinity FOREVER
               (fst (Update TIME_NegInfinity FOREVER (new_AppleseedGlassMtl default_pblock))))) =
     [REFMSG_CHANGE]"
    by (rule Update_miss_messages [OF not_InInterval_TIME_NegInfinity])
qed

text \<open>
  C6, amended. Refreshing is idempotent at every time value \<open>t\<close> other than
  \<open>TIME_NegInfinity\<close>, for a parameter block that keeps the host's side of \<^verbatim>\<open>GetValue\<close>
  at \<open>t\<close> (every interval it hands out with a value read at \<open>t\<close> contains \<open>t\<close>): a second
  \<open>Update\<close> at \<open>t\<close>, run on the object the first one left, with nothing in between that
  empties the cached interval, returns that object unchanged (every cached field and the
  cached interval) and sends no message to the dependents. At \<open>TIME_NegInfinity\<close> every
  \<open>Update\<close>, whatever the object, reads the parameters and sends \<^verbatim>\<open>REFMSG_CHANGE\<close>.
\<close>

theorem Update_idempotent:
  assumes "TIME_NegInfinity < t" and "t \<le> TIME_PosInfinity"
    and "intervals_contain (m_pblock s) t"
  shows "Update t valid' (fst (Update t valid s)) =
           (fst (Update t valid s),
            ivl_and valid' (m_params_validity (fst (Update t valid s))),
            []) \<and>
         snd (snd (Update TIME_NegInfinity valid' s')) = [REFMSG_CHANGE]"
proof
  show "Update t valid' (fst (Update t valid s)) =
           (fst (Update t valid s),
            ivl_and valid' (m_params_validity (fst (Update t valid s))),
            [])"
  proof (cases "InInterval (m_params_validity s) t")
    case True
    then have "fst (Update t valid s) = s"
      by (simp add: Update_hit)
    with True show ?thesis
      by (simp add: Update_hit)
  next
    case False
    from assms(1,2) have "InInterval FOREVER t"
      by (simp add: InInterval_FOREVER)
    with False assms(3) have "InInterval (m_params_validity (fst (Update t valid s))) t"
      by (simp add: Update_miss_validity)
    then show ?thesis
      by (rule Update_hit)
  qed
  show "snd (snd (Update TIME_NegInfinity valid' s')) = [REFMSG_CHANGE]"
    by (rule Update_miss_messages [OF not_InInterval_TIME_NegInfinity])
qed

theorem Update_idempotent_witness:
  "TIME_NegInfinity < 0 \<and> 0 \<le> TIME_PosInfinity \<and>
   intervals_contain (m_pblock (new_AppleseedGlassMtl default_pblock)) 0 \<and>
   snd (snd (Update 0 FOREVER (new_AppleseedGlassMtl default_pblock))) = [REFMSG_CHANGE] \<and>
   Update 0 FOREVER (fst (Update 0 FOREVER (new_AppleseedGlassMtl default_pblock))) =
     (fst (Update 0 FOREVER (new_AppleseedGlassMtl default_pblock)),
      ivl_and FOREVER
        (m_params_validity (fst (Update 0 FOREVER (new_AppleseedGlassMtl default_pblock)))),
      [])"
proof -
  have h1: "TIME_NegInfinity < 0" and h2: "0 \<le> TIME_PosInfinity"
    by (simp_all add: TIME_NegInfinity_def TIME_PosInfinity_def)
  have h3: "intervals_contain (m_pblock (new_AppleseedGlassMtl default_pblock)) 0"
    by (simp add: intervals_contain_def new_AppleseedGlassMtl_def default_pblock_def
        color_params_def float_params_def int_params_def texmap_params_def
        InInterval_def FOREVER_def TIME_NegInfinity_def TIME_PosInfinity_def)
  have h4: "\<not> InInterval (m_params_validity (new_AppleseedGlassMtl default_pblock)) 0"
    by (simp add: new_AppleseedGlassMtl_def InInterval_def NEVER_def TIME_NegInfinity_def)
  have h5: "snd (snd (Update 0 FOREVER (new_AppleseedGlassMtl default_pblock))) = [REFMSG_CHANGE]"
    using h4 by (rule Update_miss_messages)
  from h1 h2 h3 h5
    Update_idempotent [OF h1 h2 h3, where valid = FOREVER and valid' = FOREVER]
  show ?thesis
    by simp
qed

section \<open>Properties of the legacy shading queries\<close>

text \<open>
  C10. For every colour \<open>c\<close> and time \<open>t\<close>, \<open>GetDiffuse\<close> right after \<open>SetDiffuse c t\<close>
  returns \<open>c\<close>, with no \<open>Update\<close> in between: \<open>SetDiffuse\<close> writes the parameter block
  and the cached field \<open>m_surface_color\<close> that \<open>GetDiffuse\<close> reads.
\<close>

theorem GetDiffuse_SetDiffuse:
  "GetDiffuse (SetDiffuse c t s) = c \<and>
   m_surface_color (SetDiffuse c t s) = c \<and>
   fst (GetValue_color (m_pblock (SetDiffuse c t s)) ParamIdSurfaceColor t valid) = c"
  by (simp add: GetDiffuse_def SetDiffuse_def SetValue_color_def GetValue_color_def Let_def)

section \<open>Properties of persistence\<close>

lemma USHORT_roundtrip:
  "USHORT_of_bytes (ucast v) (ucast (drop_bit 8 v)) = v"
  unfolding USHORT_of_bytes_def
  by (rule bit_word_eqI) (auto simp: bit_simps)

lemma read_write_USHORT: "read_USHORT (bytes_of_USHORT v) = (IO_OK, Some v)"
  by (simp add: bytes_of_USHORT_def USHORT_roundtrip)

lemma read_USHORT_cases:
  "read_USHORT bs =
     (if 2 \<le> length bs then (IO_OK, Some (USHORT_of_bytes (bs ! 0) (bs ! 1)))
      else (IO_ERROR, None))"
  by (cases bs rule: read_USHORT.cases) simp_all

lemma append_to_open_snoc:
  "append_to_open bs (cs @ [c]) = cs @ [c\<lparr>chunk_data := chunk_data c @ bs\<rparr>]"
  by (simp add: append_to_open_def)

lemma length_bytes_of_USHORT: "length (bytes_of_USHORT v) = 2"
  by (simp add: bytes_of_USHORT_def)

lemma write_USHORT_ok:
  "snd (write_USHORT isave v) \<longleftrightarrow> 2 \<le> space isave"
  by (simp add: write_USHORT_def ISave_Write_def Let_def length_bytes_of_USHORT)

lemma write_USHORT_space:
  "space (fst (write_USHORT isave v)) = space isave - 2"
  by (simp add: write_USHORT_def ISave_Write_def Let_def length_bytes_of_USHORT)

lemma MtlBase_Save_ok:
  "snd (MtlBase_Save base isave) = IO_OK \<longleftrightarrow> length base \<le> space isave"
  by (simp add: MtlBase_Save_def ISave_Write_def Let_def)

lemma space_BeginChunk: "space (BeginChunk i isave) = space isave"
  by (simp add: BeginChunk_def)

lemma Save_result:
  "snd (Save K v base isave) =
     (if snd (write_USHORT (BeginChunk (ChunkFileFormatVersion K) isave) v) \<and>
         snd (MtlBase_Save base
               (BeginChunk (ChunkMtlBase K)
                 (EndChunk (fst (write_USHORT (BeginChunk (ChunkFileFormatVersion K) isave)
                                   v))))) = IO_OK
      then IO_OK else IO_ERROR)"
  by (simp add: Save_def Let_def split_beta)

lemma Save_ok_space:
  "snd (Save K v base isave) = IO_OK \<longleftrightarrow> 2 + length base \<le> space isave"
  by (auto simp: Save_result write_USHORT_ok MtlBase_Save_ok space_BeginChunk EndChunk_def
      write_USHORT_space)

lemma Save_ok_stream:
  assumes "2 + length base \<le> space isave"
  shows "saved (fst (Save K v base isave)) =
         saved isave @
         [\<lparr>chunk_id = ChunkFileFormatVersion K, chunk_data = bytes_of_USHORT v\<rparr>,
          \<lparr>chunk_id = ChunkMtlBase K, chunk_data = base\<rparr>]"
proof -
  from assms have "2 \<le> space isave" and "length base \<le> space isave - 2"
    by simp_all
  then show ?thesis
    by (simp add: Save_def Let_def split_beta write_USHORT_def MtlBase_Save_def ISave_Write_def
        BeginChunk_def EndChunk_def length_bytes_of_USHORT append_to_open_snoc
        append_to_open_snoc [of _ "xs @ [y]" for xs y, simplified])
qed

lemma Load_skip:
  assumes "chunk_intact c" and "\<not> known_chunk K c"
  shows "Load K base_load (c # cs) lg = Load K base_load cs lg"
  using assms by (simp add: io_result_def chunk_intact_def known_chunk_def)

lemma Load_known_chunks:
  "list_all chunk_intact cs \<Longrightarrow>
   Load K base_load cs lg = Load K base_load (known_chunks K cs) lg"
proof (induction cs arbitrary: lg)
  case Nil
  show ?case
    by (simp add: known_chunks_def)
next
  case (Cons c cs)
  then have intact: "chunk_intact c" and rest: "list_all chunk_intact cs"
    by simp_all
  show ?case
  proof (cases "known_chunk K c")
    case False
    with intact have "Load K base_load (c # cs) lg = Load K base_load cs lg"
      by (rule Load_skip)
    also have "\<dots> = Load K base_load (known_chunks K cs) lg"
      using rest by (rule Cons.IH)
    finally show ?thesis
      using False by (simp add: known_chunks_def)
  next
    case True
    then have "known_chunks K (c # cs) = c # known_chunks K cs"
      by (simp add: known_chunks_def)
    then show ?thesis
      using Cons.IH [OF rest]
      by (simp add: Let_def split: prod.splits option.splits)
  qed
qed

lemma Load_ok_iff:
  "fst (Load K base_load cs lg) = IO_OK \<longleftrightarrow> list_all (chunk_loads K base_load) cs"
  by (induction cs arbitrary: lg)
    (auto simp: chunk_loads_def io_result_def read_USHORT_cases Let_def split: if_splits)

lemma Load_ok_log:
  "fst (Load K base_load cs lg) = IO_OK \<Longrightarrow>
   snd (Load K base_load cs lg) =
     \<lparr>versions_read = versions_read lg @
        map (\<lambda>c. USHORT_of_bytes (lc_data c ! 0) (lc_data c ! 1))
          (filter (\<lambda>c. lc_id c = ChunkFileFormatVersion K) cs),
      bases_loaded = bases_loaded lg @
        map lc_data
          (filter (\<lambda>c. lc_id c \<noteq> ChunkFileFormatVersion K \<and> lc_id c = ChunkMtlBase K) cs)\<rparr>"
  by (induction cs arbitrary: lg)
    (auto simp: io_result_def read_USHORT_cases Let_def split: if_splits)

lemma Load_saved:
  assumes "ChunkFileFormatVersion K \<noteq> ChunkMtlBase K"
    and "snd (Save K v base \<lparr>saved = [], space = n\<rparr>) = IO_OK"
  shows "Load K base_load (read_back (saved (fst (Save K v base \<lparr>saved = [], space = n\<rparr>)))) empty_log =
         (base_load base, \<lparr>versions_read = [v], bases_loaded = [base]\<rparr>)"
proof -
  from assms(2) have "2 + length base \<le> n"
    by (simp add: Save_ok_space)
  then have "saved (fst (Save K v base \<lparr>saved = [], space = n\<rparr>)) =
         [\<lparr>chunk_id = ChunkFileFormatVersion K, chunk_data = bytes_of_USHORT v\<rparr>,
          \<lparr>chunk_id = ChunkMtlBase K, chunk_data = base\<rparr>]"
    using Save_ok_stream [of base "\<lparr>saved = [], space = n\<rparr>" K v] by simp
  with assms(1) show ?thesis
    by (cases "base_load base")
      (simp_all add: read_back_def io_result_def read_write_USHORT empty_log_def)
qed

text \<open>
  C7. The version tag survives persistence. \<open>Save\<close> writes a file format version \<open>v\<close>,
  any value, of which \<open>Load\<close> knows nothing beforehand; \<open>Save\<close> has succeeded on a fresh
  stream. \<open>Load\<close> then reads a stream that holds the chunks \<open>Save\<close> wrote and, anywhere
  among them, chunks with identifiers that \<open>Load\<close> does not know, all opened and closed
  without failure. Then the value that \<open>Load\<close> reads from the version chunk is \<open>v\<close>, the
  value that \<open>Save\<close> wrote; every unknown chunk is skipped and the chunks after it are
  loaded: the base chunk reaches the base class, whose result is the result of \<open>Load\<close>.
  The two chunk identifiers are different, as the labels of a \<^verbatim>\<open>switch\<close> are.
\<close>

theorem version_tag_roundtrip:
  assumes "ChunkFileFormatVersion K \<noteq> ChunkMtlBase K"
    and "snd (Save K v base \<lparr>saved = [], space = n\<rparr>) = IO_OK"
    and "list_all chunk_intact cs"
    and "known_chunks K cs = read_back (saved (fst (Save K v base \<lparr>saved = [], space = n\<rparr>)))"
  shows "Load K base_load cs empty_log =
           (base_load base, \<lparr>versions_read = [v], bases_loaded = [base]\<rparr>)"
  using Load_known_chunks [OF assms(3), of K base_load empty_log]
    Load_saved [OF assms(1,2), of base_load]
  by (simp add: assms(4))

theorem version_tag_roundtrip_witness:
  "ChunkFileFormatVersion \<lparr>ChunkFileFormatVersion = 1, ChunkMtlBase = 2\<rparr> \<noteq>
     ChunkMtlBase \<lparr>ChunkFileFormatVersion = 1, ChunkMtlBase = 2\<rparr> \<and>
   Save \<lparr>ChunkFileFormatVersion = 1, ChunkMtlBase = 2\<rparr> 258 [7, 8, 9] \<lparr>saved = [], space = 100\<rparr> =
     (\<lparr>saved = [\<lparr>chunk_id = 1, chunk_data = [2, 1]\<rparr>, \<lparr>chunk_id = 2, chunk_data = [7, 8, 9]\<rparr>],
       space = 95\<rparr>, IO_OK) \<and>
   Load \<lparr>ChunkFileFormatVersion = 1, ChunkMtlBase = 2\<rparr> base_loads
     [\<lparr>lc_open_ok = True, lc_id = 99, lc_data = [5], lc_close_ok = True\<rparr>,
      \<lparr>lc_open_ok = True, lc_id = 1, lc_data = [2, 1], lc_close_ok = True\<rparr>,
      \<lparr>lc_open_ok = True, lc_id = 98, lc_data = [], lc_close_ok = True\<rparr>,
      \<lparr>lc_open_ok = True, lc_id = 2, lc_data = [7, 8, 9], lc_close_ok = True\<rparr>,
      \<lparr>lc_open_ok = True, lc_id = 97, lc_data = [6, 6, 6], lc_close_ok = True\<rparr>] empty_log =
     (IO_OK, \<lparr>versions_read = [258], bases_loaded = [[7, 8, 9]]\<rparr>)"
proof -
  let ?K = "\<lparr>ChunkFileFormatVersion = 1, ChunkMtlBase = 2\<rparr>"
  let ?cs = "[\<lparr>lc_open_ok = True, lc_id = 99, lc_data = [5], lc_close_ok = True\<rparr>,
      \<lparr>lc_open_ok = True, lc_id = 1, lc_data = [2, 1], lc_close_ok = True\<rparr>,
      \<lparr>lc_open_ok = True, lc_id = 98, lc_data = [], lc_close_ok = True\<rparr>,
      \<lparr>lc_open_ok = True, lc_id = 2, lc_data = [7, 8, 9], lc_close_ok = True\<rparr>,
      \<lparr>lc_open_ok = True, lc_id = 97, lc_data = [6, 6, 6], lc_close_ok = True\<rparr>]"
  have b: "bytes_of_USHORT (258 :: USHORT) = [2, 1]"
    by (simp add: bytes_of_USHORT_def)
  have sv: "Save ?K 258 [7, 8, 9] \<lparr>saved = [], space = 100\<rparr> =
     (\<lparr>saved = [\<lparr>chunk_id = 1, chunk_data = [2, 1]\<rparr>, \<lparr>chunk_id = 2, chunk_data = [7, 8, 9]\<rparr>],
       space = 95\<rparr>, IO_OK)"
    by (simp add: Save_def Let_def write_USHORT_def MtlBase_Save_def ISave_Write_def
        BeginChunk_def EndChunk_def append_to_open_def b)
  have h1: "ChunkFileFormatVersion ?K \<noteq> ChunkMtlBase ?K"
    by simp
  have h2: "snd (Save ?K 258 [7, 8, 9] \<lparr>saved = [], space = 100\<rparr>) = IO_OK"
    by (simp add: sv)
  have h3: "list_all chunk_intact ?cs"
    by (simp add: chunk_intact_def)
  have h4: "known_chunks ?K ?cs =
      read_back (saved (fst (Save ?K 258 [7, 8, 9] \<lparr>saved = [], space = 100\<rparr>)))"
    by (simp add: sv known_chunks_def known_chunk_def read_back_def)
  from h1 sv version_tag_roundtrip [OF h1 h2 h3 h4, where base_load = base_loads]
  show ?thesis
    by (simp add: base_loads_def)
qed

text \<open>
  C8, as the claim states it, fails for \<open>Load\<close>. On the empty stream \<open>Load\<close> returns
  \<^verbatim>\<open>IO_OK\<close> and has read neither chunk; on a stream that holds the version chunk only
  it returns \<^verbatim>\<open>IO_OK\<close> and has read the version but no base state. In both cases it
  neither has read both chunks nor reports failure.
\<close>

theorem Load_succeeds_without_the_chunks:
  "Load \<lparr>ChunkFileFormatVersion = 1, ChunkMtlBase = 2\<rparr> base_loads [] empty_log =
     (IO_OK, \<lparr>versions_read = [], bases_loaded = []\<rparr>) \<and>
   Load \<lparr>ChunkFileFormatVersion = 1, ChunkMtlBase = 2\<rparr> base_loads
     [\<lparr>lc_open_ok = True, lc_id = 1, lc_data = [2, 1], lc_close_ok = True\<rparr>] empty_log =
     (IO_OK, \<lparr>versions_read = [258], bases_loaded = []\<rparr>)"
  by (simp add: empty_log_def io_result_def USHORT_of_bytes_def)

text \<open>
  C8, amended. \<open>Save\<close> and \<open>Load\<close> report I/O failure through their result. \<open>Save\<close> returns
  \<^verbatim>\<open>IO_OK\<close> if and only if the write of the version and the save of the base class both
  succeed, and \<^verbatim>\<open>IO_ERROR\<close> otherwise; when it returns \<^verbatim>\<open>IO_OK\<close> the stream has got the
  whole version chunk and the whole base chunk. \<open>Load\<close> returns \<^verbatim>\<open>IO_OK\<close> if and only if
  every chunk that the stream holds was opened, read and closed without failure; then it
  has read the version of every version chunk of the stream and handed every base chunk of
  the stream to the base class. In every other case its result is not \<^verbatim>\<open>IO_OK\<close>. \<open>Load\<close>
  does not ask that the version chunk or the base chunk be there.
\<close>

theorem Save_Load_report_failure:
  "(snd (Save K v base isave) = IO_OK \<longleftrightarrow>
      snd (write_USHORT (BeginChunk (ChunkFileFormatVersion K) isave) v) \<and>
      snd (MtlBase_Save base
            (BeginChunk (ChunkMtlBase K)
              (EndChunk (fst (write_USHORT (BeginChunk (ChunkFileFormatVersion K) isave) v)))))
        = IO_OK) \<and>
   (snd (Save K v base isave) \<noteq> IO_OK \<longrightarrow> snd (Save K v base isave) = IO_ERROR) \<and>
   (snd (Save K v base isave) = IO_OK \<longrightarrow>
      saved (fst (Save K v base isave)) =
        saved isave @
        [\<lparr>chunk_id = ChunkFileFormatVersion K, chunk_data = bytes_of_USHORT v\<rparr>,
         \<lparr>chunk_id = ChunkMtlBase K, chunk_data = base\<rparr>]) \<and>
   (fst (Load K base_load cs lg) = IO_OK \<longleftrightarrow> list_all (chunk_loads K base_load) cs) \<and>
   (fst (Load K base_load cs lg) = IO_OK \<longrightarrow>
      snd (Load K base_load cs lg) =
        \<lparr>versions_read = versions_read lg @
           map (\<lambda>c. USHORT_of_bytes (lc_data c ! 0) (lc_data c ! 1))
             (filter (\<lambda>c. lc_id c = ChunkFileFormatVersion K) cs),
         bases_loaded = bases_loaded lg @
           map lc_data
             (filter (\<lambda>c. lc_id c \<noteq> ChunkFileFormatVersion K \<and> lc_id c = ChunkMtlBase K) cs)\<rparr>)"
proof (intro conjI impI)
  show "snd (Save K v base isave) = IO_OK \<longleftrightarrow>
      snd (write_USHORT (BeginChunk (ChunkFileFormatVersion K) isave) v) \<and>
      snd (MtlBase_Save base
            (BeginChunk (ChunkMtlBase K)
              (EndChunk (fst (write_USHORT (BeginChunk (ChunkFileFormatVersion K) isave) v)))))
        = IO_OK"
    by (simp add: Save_result)
  show "snd (Save K v base isave) = IO_ERROR" if "snd (Save K v base isave) \<noteq> IO_OK"
    using that by (simp add: Save_result split: if_splits)
  show "saved (fst (Save K v base isave)) =
        saved isave @
        [\<lparr>chunk_id = ChunkFileFormatVersion K, chunk_data = bytes_of_USHORT v\<rparr>,
         \<lparr>chunk_id = ChunkMtlBase K, chunk_data = base\<rparr>]"
    if "snd (Save K v base isave) = IO_OK"
    using that by (simp add: Save_ok_space Save_ok_stream)
  show "fst (Load K base_load cs lg) = IO_OK \<longleftrightarrow> list_all (chunk_loads K base_load) cs"
    by (rule Load_ok_iff)
  show "snd (Load K base_load cs lg) =
        \<lparr>versions_read = versions_read lg @
           map (\<lambda>c. USHORT_of_bytes (lc_data c ! 0) (lc_data c ! 1))
             (filter (\<lambda>c. lc_id c = ChunkFileFormatVersion K) cs),
         bases_loaded = bases_loaded lg @
           map lc_data
             (filter (\<lambda>c. lc_id c \<noteq> ChunkFileFormatVersion K \<and> lc_id c = ChunkMtlBase K) cs)\<rparr>"
    if "fst (Load K base_load cs lg) = IO_OK"
    using that by (rule Load_ok_log)
qed

theorem Save_Load_report_failure_witness:
  "snd (Save \<lparr>ChunkFileFormatVersion = 1, ChunkMtlBase = 2\<rparr> 258 [7, 8, 9]
          \<lparr>saved = [], space = 100\<rparr>) = IO_OK \<and>
   saved (fst (Save \<lparr>ChunkFileFormatVersion = 1, ChunkMtlBase = 2\<rparr> 258 [7, 8, 9]
                 \<lparr>saved = [], space = 100\<rparr>)) =
     [\<lparr>chunk_id = 1, chunk_data = [2, 1]\<rparr>, \<lparr>chunk_id = 2, chunk_data = [7, 8, 9]\<rparr>] \<and>
   snd (Save \<lparr>ChunkFileFormatVersion = 1, ChunkMtlBase = 2\<rparr> 258 [7, 8, 9]
          \<lparr>saved = [], space = 4\<rparr>) = IO_ERROR \<and>
   Load \<lparr>ChunkFileFormatVersion = 1, ChunkMtlBase = 2\<rparr> base_loads
     [\<lparr>lc_open_ok = True, lc_id = 1, lc_data = [2, 1], lc_close_ok = True\<rparr>,
      \<lparr>lc_open_ok = True, lc_id = 2, lc_data = [7, 8, 9], lc_close_ok = True\<rparr>] empty_log =
     (IO_OK, \<lparr>versions_read = [258], bases_loaded = [[7, 8, 9]]\<rparr>) \<and>
   fst (Load \<lparr>ChunkFileFormatVersion = 1, ChunkMtlBase = 2\<rparr> base_loads
         [\<lparr>lc_open_ok = True, lc_id = 1, lc_data = [2], lc_close_ok = True\<rparr>,
          \<lparr>lc_open_ok = True, lc_id = 2, lc_data = [7, 8, 9], lc_close_ok = True\<rparr>] empty_log)
     \<noteq> IO_OK"
proof -
  let ?K = "\<lparr>ChunkFileFormatVersion = 1, ChunkMtlBase = 2\<rparr>"
  let ?good = "[\<lparr>lc_open_ok = True, lc_id = 1, lc_data = [2, 1], lc_close_ok = True\<rparr>,
      \<lparr>lc_open_ok = True, lc_id = 2, lc_data = [7, 8, 9], lc_close_ok = True\<rparr>]"
  let ?short = "[\<lparr>lc_open_ok = True, lc_id = 1, lc_data = [2], lc_close_ok = True\<rparr>,
      \<lparr>lc_open_ok = True, lc_id = 2, lc_data = [7, 8, 9], lc_close_ok = True\<rparr>]"
  have s1: "snd (Save ?K 258 [7, 8, 9] \<lparr>saved = [], space = 100\<rparr>) = IO_OK"
    and s2: "snd (Save ?K 258 [7, 8, 9] \<lparr>saved = [], space = 4\<rparr>) \<noteq> IO_OK"
    by (simp_all add: Save_ok_space)
  have b: "bytes_of_USHORT (258 :: USHORT) = [2, 1]"
    by (simp add: bytes_of_USHORT_def)
  have v: "USHORT_of_bytes 2 1 = 258"
    by (simp add: USHORT_of_bytes_def)
  have l1: "list_all (chunk_loads ?K base_loads) ?good"
    and l2: "\<not> list_all (chunk_loads ?K base_loads) ?short"
    by (simp_all add: chunk_loads_def base_loads_def)
  from s1 s2 l1 l2
    Save_Load_report_failure [where K = ?K and v = 258 and base = "[7, 8, 9]"
      and isave = "\<lparr>saved = [], space = 100\<rparr>" and base_load = base_loads and cs = ?good
      and lg = empty_log]
    Save_Load_report_failure [where K = ?K and v = 258 and base = "[7, 8, 9]"
      and isave = "\<lparr>saved = [], space = 4\<rparr>" and base_load = base_loads and cs = ?short
      and lg = empty_log]
  show ?thesis
    by (simp add: b v empty_log_def prod_eq_iff)
qed

text \<open>
  C9. \<open>GetXParency\<close> returns the product of the value channels of the surface colour and
  of the refraction tint, the value channel of a colour being the largest of its three
  components; for the surface colour \<open>(1, 1, 1)\<close> and the refraction tint
  \<open>(1/2, 1/2, 1/2)\<close> it returns 1/2.
\<close>

theorem GetXParency_value_product:
  "GetXParency s =
     max (color_r (m_surface_color s)) (max (color_g (m_surface_color s)) (color_b (m_surface_color s))) *
     max (color_r (m_refraction_tint s))
       (max (color_g (m_refraction_tint s)) (color_b (m_refraction_tint s))) \<and>
   GetXParency (s\<lparr>m_surface_color := Color 1 1 1,
                   m_refraction_tint := Color (1 / 2) (1 / 2) (1 / 2)\<rparr>) = 1 / 2"
  by (simp add: GetXParency_def RGBtoHSV_def Let_def)

end
